theory Spec2Isabelle
  imports Main "HOL-Library.Product_Lexorder"
begin

section \<open>Error values and the error classifier (internal/database/errors.go)\<close>

text \<open>
  Go error values as they occur in the repository. A \<open>*pq.Error\<close> carries its SQLSTATE
  code; \<open>sql.ErrNoRows\<close>, the two context errors and the six package-level sentinels
  of errors.go are distinguished leaves; \<open>fmt.Errorf("...: %w", err)\<close> is \<open>Wrap\<close>
  with the context text, and the rollback message
  \<open>fmt.Errorf("rollback failed: %v (original error: %w)", rbErr, err)\<close> is
  \<open>RollbackFailed rbErr err\<close>, which unwraps to \<open>err\<close> only.
\<close>

datatype sentinel =
    ErrUserNotFound
  | ErrProductNotFound
  | ErrOrderNotFound
  | ErrInsufficientStock
  | ErrOptimisticLockFailed
  | ErrLockTimeout

datatype wrapmsg =
    BeginTransaction
  | CommitTransaction
  | MaxRetriesExceeded int
  | MaxRetriesExceededOnCommit int
  | Msg string
  | MsgId string int

datatype err =
    PqError string
  | SqlErrNoRows
  | CtxCanceled
  | CtxDeadlineExceeded
  | Sentinel sentinel
  | OtherErr string
  | Wrap wrapmsg err
  | RollbackFailed err err

datatype ErrorClass =
    ErrorClassPermanent
  | ErrorClassTransient
  | ErrorClassDeadlock
  | ErrorClassSerialization

text \<open>\<open>errors.As(err, &pqErr)\<close>: the code of the first \<open>*pq.Error\<close> on the unwrap chain.\<close>

fun errors_As_pq :: "err \<Rightarrow> string option" where
  "errors_As_pq (PqError c) = Some c"
| "errors_As_pq (Wrap m e) = errors_As_pq e"
| "errors_As_pq (RollbackFailed rb e) = errors_As_pq e"
| "errors_As_pq _ = None"

text \<open>\<open>errors.Is(err, sql.ErrNoRows)\<close>.\<close>

fun errors_Is_NoRows :: "err \<Rightarrow> bool" where
  "errors_Is_NoRows SqlErrNoRows = True"
| "errors_Is_NoRows (Wrap m e) = errors_Is_NoRows e"
| "errors_Is_NoRows (RollbackFailed rb e) = errors_Is_NoRows e"
| "errors_Is_NoRows _ = False"

text \<open>The leaf that the unwrap chain ends in.\<close>

fun root_cause :: "err \<Rightarrow> err" where
  "root_cause (Wrap m e) = root_cause e"
| "root_cause (RollbackFailed rb e) = root_cause e"
| "root_cause e = e"

text \<open>\<open>ClassifyError\<close>; the argument \<open>None\<close> is Go's \<open>nil\<close> error.\<close>

definition ClassifyError :: "err option \<Rightarrow> ErrorClass" where
  "ClassifyError err =
     (case err of
        None \<Rightarrow> ErrorClassPermanent
      | Some e \<Rightarrow>
          (case errors_As_pq e of
             Some code \<Rightarrow>
               (if code = ''40001'' then ErrorClassSerialization
                else if code = ''40P01'' then ErrorClassDeadlock
                else if code = ''55P03'' then ErrorClassTransient
                else if code = ''23505'' \<or> code = ''23503'' \<or> code = ''23502'' \<or> code = ''23514''
                  then ErrorClassPermanent
                else if errors_Is_NoRows e then ErrorClassPermanent
                else ErrorClassPermanent)
           | None \<Rightarrow>
               (if errors_Is_NoRows e then ErrorClassPermanent else ErrorClassPermanent)))"

definition IsRetryable :: "err option \<Rightarrow> bool" where
  "IsRetryable err =
     (let class = ClassifyError err
      in class = ErrorClassTransient \<or> class = ErrorClassDeadlock \<or> class = ErrorClassSerialization)"

text \<open>The not-found conditions of the repository.\<close>

definition is_not_found :: "err \<Rightarrow> bool" where
  "is_not_found e =
     (root_cause e = SqlErrNoRows \<or> root_cause e = Sentinel ErrUserNotFound
      \<or> root_cause e = Sentinel ErrProductNotFound \<or> root_cause e = Sentinel ErrOrderNotFound)"

section \<open>The retrying executor (WithRetry)\<close>

text \<open>
  Go's \<open>int64\<close> arithmetic wraps around; \<open>/\<close> truncates towards zero.
\<close>

definition wrap64 :: "int \<Rightarrow> int" where
  "wrap64 x = (x + 2 ^ 63) mod 2 ^ 64 - 2 ^ 63"

definition go_quot :: "int \<Rightarrow> int \<Rightarrow> int" where
  "go_quot a b = sgn a * sgn b * (\<bar>a\<bar> div \<bar>b\<bar>)"

datatype IsolationLevel =
    LevelDefault
  | LevelReadUncommitted
  | LevelReadCommitted
  | LevelWriteCommitted
  | LevelRepeatableRead
  | LevelSnapshot
  | LevelSerializable
  | LevelLinearizable

record TxOptions =
  IsolationLevel :: IsolationLevel
  ReadOnly :: bool
  MaxRetries :: int

definition DefaultTxOptions :: TxOptions where
  "DefaultTxOptions = \<lparr>IsolationLevel = LevelReadCommitted, ReadOnly = False, MaxRetries = 3\<rparr>"

datatype ctx_err = Canceled | DeadlineExceeded

fun ctx_Err :: "ctx_err \<Rightarrow> err" where
  "ctx_Err Canceled = CtxCanceled"
| "ctx_Err DeadlineExceeded = CtxDeadlineExceeded"

text \<open>
  What the collaborators answer during one pass through the loop body: whether the
  context is already done at the first \<open>select\<close> (and with which \<open>ctx.Err()\<close>), what
  \<open>db.BeginTx\<close>, \<open>tx.Rollback\<close> and \<open>tx.Commit\<close> return, the world the unit of work
  runs in, the draw of the random source, and whether the context is done before the
  timer fires in the second \<open>select\<close>.
\<close>

record 'w attempt_env =
  ctx_done_at_start :: "ctx_err option"
  begin_result :: "err option"
  world :: 'w
  rollback_result :: "err option"
  commit_result :: "err option"
  rand_draw :: int
  ctx_done_in_sleep :: "ctx_err option"

datatype event =
    EvBegin IsolationLevel bool
  | EvFn
  | EvRollback
  | EvCommit
  | EvSleep int
  | EvSleepCancelled int

datatype step_result = Return "err option" | Panic | Continue int err

datatype outcome = Returned "err option" | Panicked

text \<open>
  One pass through the body of the \<open>for\<close> loop of \<open>WithRetry\<close>. The state \<open>s\<close> is
  the committed database; the unit of work \<open>fn\<close> computes on a working copy, which a
  successful commit makes the new state and everything else discards.
  \<open>rand.Int63n(n)\<close> panics for \<open>n \<le> 0\<close> and otherwise returns a value in \<open>[0, n)\<close>.
\<close>

definition run_attempt ::
  "'w attempt_env \<Rightarrow> TxOptions \<Rightarrow> ('w \<Rightarrow> 's \<Rightarrow> err option \<times> 's) \<Rightarrow> int \<Rightarrow> int \<Rightarrow> 's
     \<Rightarrow> step_result \<times> 's \<times> event list" where
  "run_attempt a opts fn attempt backoff s =
     (case ctx_done_at_start a of
        Some c \<Rightarrow> (Return (Some (ctx_Err c)), s, [])
      | None \<Rightarrow>
     (case begin_result a of
        Some e \<Rightarrow>
          (Return (Some (Wrap BeginTransaction e)), s,
           [EvBegin (IsolationLevel opts) (ReadOnly opts)])
      | None \<Rightarrow>
     (case fn (world a) s of
        (Some e, s') \<Rightarrow>
          (case rollback_result a of
             Some rbErr \<Rightarrow>
               (Return (Some (RollbackFailed rbErr e)), s,
                [EvBegin (IsolationLevel opts) (ReadOnly opts), EvFn, EvRollback])
           | None \<Rightarrow>
               if ClassifyError (Some e) = ErrorClassPermanent then
                 (Return (Some e), s,
                  [EvBegin (IsolationLevel opts) (ReadOnly opts), EvFn, EvRollback])
               else if attempt = MaxRetries opts then
                 (Return (Some (Wrap (MaxRetriesExceeded (MaxRetries opts)) e)), s,
                  [EvBegin (IsolationLevel opts) (ReadOnly opts), EvFn, EvRollback])
               else
                 (let n = wrap64 (go_quot backoff 4) in
                  if n \<le> 0 then
                    (Panic, s, [EvBegin (IsolationLevel opts) (ReadOnly opts), EvFn, EvRollback])
                  else
                    (let jitter = rand_draw a mod n;
                         sleepDuration = wrap64 (backoff + jitter)
                     in case ctx_done_in_sleep a of
                          Some c \<Rightarrow>
                            (Return (Some (ctx_Err c)), s,
                             [EvBegin (IsolationLevel opts) (ReadOnly opts), EvFn, EvRollback,
                              EvSleepCancelled sleepDuration])
                        | None \<Rightarrow>
                            (Continue (wrap64 (backoff * 2)) e, s,
                             [EvBegin (IsolationLevel opts) (ReadOnly opts), EvFn, EvRollback,
                              EvSleep sleepDuration]))))
      | (None, s') \<Rightarrow>
          (case commit_result a of
             Some e \<Rightarrow>
               if ClassifyError (Some e) = ErrorClassPermanent then
                 (Return (Some (Wrap CommitTransaction e)), s,
                  [EvBegin (IsolationLevel opts) (ReadOnly opts), EvFn, EvCommit])
               else if attempt = MaxRetries opts then
                 (Return (Some (Wrap (MaxRetriesExceededOnCommit (MaxRetries opts)) e)), s,
                  [EvBegin (IsolationLevel opts) (ReadOnly opts), EvFn, EvCommit])
               else
                 (let n = wrap64 (go_quot backoff 4) in
                  if n \<le> 0 then
                    (Panic, s, [EvBegin (IsolationLevel opts) (ReadOnly opts), EvFn, EvCommit])
                  else
                    (let jitter = rand_draw a mod n;
                         sleepDuration = wrap64 (backoff + jitter)
                     in case ctx_done_in_sleep a of
                          Some c \<Rightarrow>
                            (Return (Some (ctx_Err c)), s,
                             [EvBegin (IsolationLevel opts) (ReadOnly opts), EvFn, EvCommit,
                              EvSleepCancelled sleepDuration])
                        | None \<Rightarrow>
                            (Continue (wrap64 (backoff * 2)) e, s,
                             [EvBegin (IsolationLevel opts) (ReadOnly opts), EvFn, EvCommit,
                              EvSleep sleepDuration])))
           | None \<Rightarrow>
               (Return None, s',
                [EvBegin (IsolationLevel opts) (ReadOnly opts), EvFn, EvCommit])))))"

definition prepend :: "event list \<Rightarrow> outcome \<times> 's \<times> event list \<Rightarrow> outcome \<times> 's \<times> event list" where
  "prepend evs r = (case r of (out, s, evs') \<Rightarrow> (out, s, evs @ evs'))"

text \<open>
  The loop \<open>for attempt := 0; attempt <= opts.MaxRetries; attempt++\<close>, entered at
  \<open>attempt\<close> with the current \<open>backoff\<close> and \<open>lastErr\<close>; after the loop the function
  returns \<open>lastErr\<close>.
\<close>

function WithRetry_loop ::
  "(int \<Rightarrow> 'w attempt_env) \<Rightarrow> TxOptions \<Rightarrow> ('w \<Rightarrow> 's \<Rightarrow> err option \<times> 's) \<Rightarrow> int \<Rightarrow> int
     \<Rightarrow> err option \<Rightarrow> 's \<Rightarrow> outcome \<times> 's \<times> event list" where
  "WithRetry_loop env opts fn attempt backoff lastErr s =
     (if attempt \<le> MaxRetries opts then
        (case run_attempt (env attempt) opts fn attempt backoff s of
           (Return r, s', evs) \<Rightarrow> (Returned r, s', evs)
         | (Panic, s', evs) \<Rightarrow> (Panicked, s', evs)
         | (Continue b e, s', evs) \<Rightarrow>
             prepend evs (WithRetry_loop env opts fn (attempt + 1) b (Some e) s'))
      else (Returned lastErr, s, []))"
  by pat_completeness auto
termination
  by (relation "measure (\<lambda>(env, opts, fn, attempt, backoff, lastErr, s).
        nat (MaxRetries opts - attempt + 1))") auto

definition WithRetry ::
  "(int \<Rightarrow> 'w attempt_env) \<Rightarrow> TxOptions \<Rightarrow> ('w \<Rightarrow> 's \<Rightarrow> err option \<times> 's) \<Rightarrow> 's
     \<Rightarrow> outcome \<times> 's \<times> event list" where
  "WithRetry env opts fn s = WithRetry_loop env opts fn 0 50000000 None s"

subsection \<open>A scripted run of the executor\<close>

text \<open>
  A unit of work whose result is dictated by the world it runs in, and which counts its
  invocations in the working copy of the state; used to run the executor on concrete
  scripts.
\<close>

definition scripted_fn :: "err option \<Rightarrow> nat \<Rightarrow> err option \<times> nat" where
  "scripted_fn w s = (w, Suc s)"

definition scripted_attempt ::
  "err option \<Rightarrow> err option \<Rightarrow> int \<Rightarrow> ctx_err option \<Rightarrow> (err option) attempt_env" where
  "scripted_attempt body commit r cs =
     \<lparr>ctx_done_at_start = None, begin_result = None, world = body, rollback_result = None,
      commit_result = commit, rand_draw = r, ctx_done_in_sleep = cs\<rparr>"

text \<open>
  Attempt 0 deadlocks in the body, attempt 1 fails to serialize at commit, every later
  attempt fails to serialize in the body.
\<close>

definition script_three :: "int \<Rightarrow> (err option) attempt_env" where
  "script_three k =
     (if k = 0 then scripted_attempt (Some (PqError ''40P01'')) None 7 None
      else if k = 1 then scripted_attempt None (Some (PqError ''40001'')) 12500003 None
      else scripted_attempt (Some (Wrap (Msg ''update stock'') (PqError ''40001''))) None 0 None)"

definition script_cancel_start :: "int \<Rightarrow> (err option) attempt_env" where
  "script_cancel_start k =
     (scripted_attempt (Some (PqError ''40P01'')) None 7 None)
       \<lparr>ctx_done_at_start := (if k = 1 then Some Canceled else None)\<rparr>"

definition script_cancel_sleep :: "int \<Rightarrow> (err option) attempt_env" where
  "script_cancel_sleep k = scripted_attempt (Some (PqError ''40P01'')) None 7 (Some DeadlineExceeded)"

definition opts_retries :: "int \<Rightarrow> TxOptions" where
  "opts_retries n = \<lparr>IsolationLevel = LevelSerializable, ReadOnly = False, MaxRetries = n\<rparr>"

section \<open>Stored rows and the inventory locking layer\<close>

text \<open>
  Rows as the models package and the migrations declare them. Decimal amounts are counted
  in hundredths, timestamps in nanoseconds since the Unix epoch (UTC); the products table is keyed by its primary
  key.
\<close>

record Product =
  Product_ID :: int
  SKU :: string
  Name :: string
  Description :: string
  Price :: int
  StockQuantity :: int
  Product_CreatedAt :: int
  Product_UpdatedAt :: int
  Product_Version :: int

record OrderItem =
  OrderItem_ID :: int
  OrderItem_OrderID :: int
  OrderItem_ProductID :: int
  OrderItem_Quantity :: int
  UnitPrice :: int
  Subtotal :: int
  OrderItem_CreatedAt :: int

record Order =
  Order_ID :: int
  Order_UserID :: int
  OrderNumber :: string
  Status :: string
  TotalAmount :: int
  Order_CreatedAt :: int
  Order_UpdatedAt :: int
  Order_Version :: int
  Items :: "OrderItem list"

record store =
  users :: "int set"
  products :: "int \<rightharpoonup> Product"
  orders :: "Order list"
  order_items :: "OrderItem list"
  orders_id_seq :: int
  order_items_id_seq :: int

text \<open>
  What the store answers to one statement: a fault of the store or the driver (deadlock,
  serialization failure, broken connection, cancelled context), a failure of
  \<open>result.RowsAffected()\<close>, the value of \<open>NOW()\<close>, and the product rows that another
  transaction holds locked.
\<close>

record stmt_env =
  store_fault :: "err option"
  rows_affected_fault :: "err option"
  NOW :: int
  locked_by_other :: "int set"

text \<open>\<open>SELECT ... FROM products WHERE id = $1 FOR UPDATE\<close>, scanned into a product.\<close>

definition select_product_for_update :: "stmt_env \<Rightarrow> store \<Rightarrow> int \<Rightarrow> err + Product" where
  "select_product_for_update env st productID =
     (case store_fault env of
        Some e \<Rightarrow> Inl e
      | None \<Rightarrow>
          (case products st productID of
             None \<Rightarrow> Inl SqlErrNoRows
           | Some p \<Rightarrow> Inr p))"

text \<open>The same with \<open>NOWAIT\<close>: a row locked by another transaction raises 55P03.\<close>

definition select_product_for_update_nowait :: "stmt_env \<Rightarrow> store \<Rightarrow> int \<Rightarrow> err + Product" where
  "select_product_for_update_nowait env st productID =
     (case store_fault env of
        Some e \<Rightarrow> Inl e
      | None \<Rightarrow>
          (case products st productID of
             None \<Rightarrow> Inl SqlErrNoRows
           | Some p \<Rightarrow>
               if productID \<in> locked_by_other env then Inl (PqError ''55P03'') else Inr p))"

definition ReserveStock :: "stmt_env \<Rightarrow> store \<Rightarrow> int \<Rightarrow> int \<Rightarrow> (err + Product) \<times> store" where
  "ReserveStock env st productID quantity =
     (case select_product_for_update env st productID of
        Inl err \<Rightarrow>
          if err = SqlErrNoRows then (Inl (Sentinel ErrProductNotFound), st)
          else (Inl (Wrap (Msg ''lock product'') err), st)
      | Inr product \<Rightarrow>
          if StockQuantity product < quantity then (Inl (Sentinel ErrInsufficientStock), st)
          else (Inr product, st))"

definition ReserveStockNoWait :: "stmt_env \<Rightarrow> store \<Rightarrow> int \<Rightarrow> int \<Rightarrow> (err + Product) \<times> store" where
  "ReserveStockNoWait env st productID quantity =
     (case select_product_for_update_nowait env st productID of
        Inl err \<Rightarrow>
          if err = PqError ''55P03'' then (Inl (Sentinel ErrLockTimeout), st)
          else if err = SqlErrNoRows then (Inl (Sentinel ErrProductNotFound), st)
          else (Inl (Wrap (Msg ''lock product (nowait)'') err), st)
      | Inr product \<Rightarrow>
          if StockQuantity product < quantity then (Inl (Sentinel ErrInsufficientStock), st)
          else (Inr product, st))"

text \<open>
  \<open>UPDATE products SET stock_quantity = $1, version = version + 1, updated_at = NOW()
  WHERE id = $2 AND version = $3\<close>, with the table's \<open>CHECK (stock_quantity >= 0)\<close>;
  the result is the number of rows affected.
\<close>

definition exec_update_stock_versioned ::
  "stmt_env \<Rightarrow> store \<Rightarrow> int \<Rightarrow> int \<Rightarrow> int \<Rightarrow> (err + int) \<times> store" where
  "exec_update_stock_versioned env st newStock productID version =
     (case store_fault env of
        Some e \<Rightarrow> (Inl e, st)
      | None \<Rightarrow>
          (case products st productID of
             None \<Rightarrow> (Inr 0, st)
           | Some p \<Rightarrow>
               if Product_Version p \<noteq> version then (Inr 0, st)
               else if newStock < 0 then (Inl (PqError ''23514''), st)
               else (Inr 1,
                     st\<lparr>products := (products st)(productID \<mapsto>
                           p\<lparr>StockQuantity := newStock,
                             Product_Version := Product_Version p + 1,
                             Product_UpdatedAt := NOW env\<rparr>)\<rparr>)))"

definition UpdateStockOptimistic ::
  "stmt_env \<Rightarrow> store \<Rightarrow> int \<Rightarrow> int \<Rightarrow> int \<Rightarrow> err option \<times> store" where
  "UpdateStockOptimistic env st productID newStock version =
     (case exec_update_stock_versioned env st newStock productID version of
        (Inl err, st') \<Rightarrow> (Some (Wrap (Msg ''update stock'') err), st')
      | (Inr rowsAffected, st') \<Rightarrow>
          (case rows_affected_fault env of
             Some err \<Rightarrow> (Some (Wrap (Msg ''get rows affected'') err), st')
           | None \<Rightarrow>
               if rowsAffected = 0 then (Some (Sentinel ErrOptimisticLockFailed), st')
               else (None, st')))"

text \<open>
  \<open>UPDATE products SET stock_quantity = stock_quantity - $1, updated_at = NOW()
  WHERE id = $2 AND stock_quantity >= $1\<close>; the guard makes the new quantity
  non-negative, so the table's check cannot fail.
\<close>

definition exec_decrement_stock ::
  "stmt_env \<Rightarrow> store \<Rightarrow> int \<Rightarrow> int \<Rightarrow> (err + int) \<times> store" where
  "exec_decrement_stock env st quantity productID =
     (case store_fault env of
        Some e \<Rightarrow> (Inl e, st)
      | None \<Rightarrow>
          (case products st productID of
             None \<Rightarrow> (Inr 0, st)
           | Some p \<Rightarrow>
               if StockQuantity p \<ge> quantity then
                 (Inr 1,
                  st\<lparr>products := (products st)(productID \<mapsto>
                        p\<lparr>StockQuantity := StockQuantity p - quantity,
                          Product_UpdatedAt := NOW env\<rparr>)\<rparr>)
               else (Inr 0, st)))"

definition DecrementStock :: "stmt_env \<Rightarrow> store \<Rightarrow> int \<Rightarrow> int \<Rightarrow> err option \<times> store" where
  "DecrementStock env st productID quantity =
     (case exec_decrement_stock env st quantity productID of
        (Inl err, st') \<Rightarrow> (Some (Wrap (Msg ''decrement stock'') err), st')
      | (Inr rowsAffected, st') \<Rightarrow>
          (case rows_affected_fault env of
             Some err \<Rightarrow> (Some (Wrap (Msg ''get rows affected'') err), st')
           | None \<Rightarrow>
               if rowsAffected = 0 then (Some (Sentinel ErrInsufficientStock), st')
               else (None, st')))"

subsection \<open>A small catalogue\<close>

definition quiet :: stmt_env where
  "quiet = \<lparr>store_fault = None, rows_affected_fault = None, NOW = 1700000000000000000,
            locked_by_other = {}\<rparr>"

definition widget :: Product where
  "widget = \<lparr>Product_ID = 1, SKU = ''WIDGET-001'', Name = ''Premium Widget'',
             Description = ''High-quality widget'', Price = 2999, StockQuantity = 5,
             Product_CreatedAt = 1600000000000000000, Product_UpdatedAt = 1600000000000000000,
             Product_Version = 2\<rparr>"

definition shop :: store where
  "shop = \<lparr>users = {1}, products = [1 \<mapsto> widget], orders = [], order_items = [],
           orders_id_seq = 1, order_items_id_seq = 1\<rparr>"

section \<open>Order assembly (store/orders.go)\<close>

record OrderItemRequest =
  ProductID :: int
  Quantity :: int

record CreateOrderRequest =
  UserID :: int
  Request_Items :: "OrderItemRequest list"

text \<open>
  The world one run of the unit of work sees: the answer of the store to its \<open>k\<close>-th
  statement, and the order number that \<open>generateOrderNumber\<close> derives from the clock.
\<close>

record tx_world =
  stmts :: "nat \<Rightarrow> stmt_env"
  order_number :: string

text \<open>\<open>SELECT EXISTS(SELECT 1 FROM users WHERE id = $1)\<close>.\<close>

definition select_user_exists :: "stmt_env \<Rightarrow> store \<Rightarrow> int \<Rightarrow> err + bool" where
  "select_user_exists env st userID =
     (case store_fault env of Some e \<Rightarrow> Inl e | None \<Rightarrow> Inr (userID \<in> users st))"

text \<open>
  The first loop over the requested items: lock the product row with
  \<open>FOR UPDATE NOWAIT\<close>, compare its stock with the requested quantity, record its price
  and add to the total.
\<close>

fun lock_items ::
  "(nat \<Rightarrow> stmt_env) \<Rightarrow> store \<Rightarrow> nat \<Rightarrow> OrderItemRequest list \<Rightarrow> (int \<rightharpoonup> int) \<Rightarrow> int
     \<Rightarrow> err + ((int \<rightharpoonup> int) \<times> int \<times> nat)" where
  "lock_items envs st k [] productPrices totalAmount = Inr (productPrices, totalAmount, k)"
| "lock_items envs st k (item # rest) productPrices totalAmount =
     (case select_product_for_update_nowait (envs k) st (ProductID item) of
        Inl err \<Rightarrow>
          if err = SqlErrNoRows then Inl (Sentinel ErrProductNotFound)
          else Inl (Wrap (MsgId ''lock product'' (ProductID item)) err)
      | Inr p \<Rightarrow>
          if StockQuantity p < Quantity item then Inl (Sentinel ErrInsufficientStock)
          else lock_items envs st (Suc k) rest
                 (productPrices(ProductID item \<mapsto> Price p))
                 (totalAmount + Price p * Quantity item))"

text \<open>
  \<open>INSERT INTO orders ... RETURNING id\<close>, with the table's foreign key on the user,
  its unique order number and its check on the total.
\<close>

definition insert_order ::
  "stmt_env \<Rightarrow> store \<Rightarrow> int \<Rightarrow> string \<Rightarrow> string \<Rightarrow> int \<Rightarrow> (err + int) \<times> store" where
  "insert_order env st userID orderNumber status totalAmount =
     (case store_fault env of
        Some e \<Rightarrow> (Inl e, st)
      | None \<Rightarrow>
          if userID \<notin> users st then (Inl (PqError ''23503''), st)
          else if orderNumber \<in> OrderNumber ` set (orders st) then (Inl (PqError ''23505''), st)
          else if totalAmount < 0 then (Inl (PqError ''23514''), st)
          else
            (Inr (orders_id_seq st),
             st\<lparr>orders := orders st @
                   [\<lparr>Order_ID = orders_id_seq st, Order_UserID = userID,
                     OrderNumber = orderNumber, Status = status, TotalAmount = totalAmount,
                     Order_CreatedAt = NOW env, Order_UpdatedAt = NOW env, Order_Version = 1,
                     Items = []\<rparr>],
                orders_id_seq := orders_id_seq st + 1\<rparr>))"

text \<open>
  \<open>INSERT INTO order_items ...\<close>, with the table's foreign key on the product, its
  checks on quantity, unit price and subtotal, and its unique (order, product) pair.
\<close>

definition insert_order_item ::
  "stmt_env \<Rightarrow> store \<Rightarrow> int \<Rightarrow> int \<Rightarrow> int \<Rightarrow> int \<Rightarrow> int \<Rightarrow> err option \<times> store" where
  "insert_order_item env st orderID productID quantity unitPrice subtotal =
     (case store_fault env of
        Some e \<Rightarrow> (Some e, st)
      | None \<Rightarrow>
          if products st productID = None then (Some (PqError ''23503''), st)
          else if quantity \<le> 0 \<or> unitPrice < 0 \<or> subtotal < 0 then (Some (PqError ''23514''), st)
          else if (orderID, productID)
                    \<in> (\<lambda>i. (OrderItem_OrderID i, OrderItem_ProductID i)) ` set (order_items st)
            then (Some (PqError ''23505''), st)
          else
            (None,
             st\<lparr>order_items := order_items st @
                   [\<lparr>OrderItem_ID = order_items_id_seq st, OrderItem_OrderID = orderID,
                     OrderItem_ProductID = productID, OrderItem_Quantity = quantity,
                     UnitPrice = unitPrice, Subtotal = subtotal,
                     OrderItem_CreatedAt = NOW env\<rparr>],
                order_items_id_seq := order_items_id_seq st + 1\<rparr>))"

text \<open>The second loop: one order line per requested item; a missing map key reads as zero.\<close>

fun insert_items ::
  "(nat \<Rightarrow> stmt_env) \<Rightarrow> store \<Rightarrow> nat \<Rightarrow> int \<Rightarrow> OrderItemRequest list \<Rightarrow> (int \<rightharpoonup> int)
     \<Rightarrow> err option \<times> store \<times> nat" where
  "insert_items envs st k orderID [] productPrices = (None, st, k)"
| "insert_items envs st k orderID (item # rest) productPrices =
     (let unitPrice = (case productPrices (ProductID item) of Some v \<Rightarrow> v | None \<Rightarrow> 0);
          subtotal = unitPrice * Quantity item
      in case insert_order_item (envs k) st orderID (ProductID item) (Quantity item)
                unitPrice subtotal of
           (Some err, st') \<Rightarrow> (Some (Wrap (Msg ''create order item'') err), st', k)
         | (None, st') \<Rightarrow> insert_items envs st' (Suc k) orderID rest productPrices)"

text \<open>The third loop: the guarded decrement of each product's stock.\<close>

fun decrement_items ::
  "(nat \<Rightarrow> stmt_env) \<Rightarrow> store \<Rightarrow> nat \<Rightarrow> OrderItemRequest list \<Rightarrow> err option \<times> store \<times> nat" where
  "decrement_items envs st k [] = (None, st, k)"
| "decrement_items envs st k (item # rest) =
     (case exec_decrement_stock (envs k) st (Quantity item) (ProductID item) of
        (Inl err, st') \<Rightarrow> (Some (Wrap (Msg ''update stock'') err), st', k)
      | (Inr rowsAffected, st') \<Rightarrow>
          (case rows_affected_fault (envs k) of
             Some err \<Rightarrow> (Some (Wrap (Msg ''get rows affected'') err), st', k)
           | None \<Rightarrow>
               if rowsAffected = 0 then (Some (Sentinel ErrInsufficientStock), st', k)
               else decrement_items envs st' (Suc k) rest))"

text \<open>\<open>SELECT ... FROM orders WHERE id = $1\<close>, scanned into the order.\<close>

definition select_order :: "stmt_env \<Rightarrow> store \<Rightarrow> int \<Rightarrow> err + Order" where
  "select_order env st orderID =
     (case store_fault env of
        Some e \<Rightarrow> Inl e
      | None \<Rightarrow>
          (case filter (\<lambda>ord. Order_ID ord = orderID) (orders st) of
             [] \<Rightarrow> Inl SqlErrNoRows
           | ord # _ \<Rightarrow> Inr ord))"

definition blank_order :: "int \<Rightarrow> Order" where
  "blank_order orderID =
     \<lparr>Order_ID = orderID, Order_UserID = 0, OrderNumber = [], Status = [], TotalAmount = 0,
      Order_CreatedAt = 0, Order_UpdatedAt = 0, Order_Version = 0, Items = []\<rparr>"

text \<open>
  The unit of work that \<open>CreateOrder\<close> hands to \<open>WithRetry\<close>. Its state is the store
  together with the variable \<open>order\<close> that the closure assigns.
\<close>

definition create_order_tx ::
  "CreateOrderRequest \<Rightarrow> tx_world \<Rightarrow> store \<times> Order option
     \<Rightarrow> err option \<times> (store \<times> Order option)" where
  "create_order_tx req w s =
     (case s of (st, order) \<Rightarrow>
     (case select_user_exists (stmts w 0) st (UserID req) of
        Inl err \<Rightarrow> (Some (Wrap (Msg ''check user exists'') err), (st, order))
      | Inr exists \<Rightarrow>
     if \<not> exists then (Some (Sentinel ErrUserNotFound), (st, order))
     else
     (case lock_items (stmts w) st 1 (Request_Items req) Map.empty 0 of
        Inl err \<Rightarrow> (Some err, (st, order))
      | Inr (productPrices, totalAmount, k1) \<Rightarrow>
     (case insert_order (stmts w k1) st (UserID req) (order_number w) ''pending'' totalAmount of
        (Inl err, st1) \<Rightarrow> (Some (Wrap (Msg ''create order'') err), (st1, order))
      | (Inr orderID, st1) \<Rightarrow>
     (case insert_items (stmts w) st1 (Suc k1) orderID (Request_Items req) productPrices of
        (Some err, st2, k2) \<Rightarrow> (Some err, (st2, order))
      | (None, st2, k2) \<Rightarrow>
     (case decrement_items (stmts w) st2 k2 (Request_Items req) of
        (Some err, st3, k3) \<Rightarrow> (Some err, (st3, order))
      | (None, st3, k3) \<Rightarrow>
     (case select_order (stmts w k3) st3 orderID of
        Inl err \<Rightarrow>
          (Some (Wrap (Msg ''fetch created order'') err), (st3, Some (blank_order orderID)))
      | Inr ord \<Rightarrow> (None, (st3, Some ord)))))))))"

definition CreateOrder_opts :: TxOptions where
  "CreateOrder_opts = \<lparr>IsolationLevel = LevelSerializable, ReadOnly = False, MaxRetries = 3\<rparr>"

datatype create_outcome = CreateReturned "Order option" "err option" | CreatePanicked

definition CreateOrder ::
  "(int \<Rightarrow> tx_world attempt_env) \<Rightarrow> store \<Rightarrow> CreateOrderRequest
     \<Rightarrow> create_outcome \<times> store \<times> event list" where
  "CreateOrder env db req =
     (case WithRetry env CreateOrder_opts (create_order_tx req) (db, None) of
        (Returned (Some err), (db', order), evs) \<Rightarrow> (CreateReturned None (Some err), db', evs)
      | (Returned None, (db', order), evs) \<Rightarrow> (CreateReturned order None, db', evs)
      | (Panicked, (db', order), evs) \<Rightarrow> (CreatePanicked, db', evs))"

text \<open>An item whose row can be locked at once and holds enough stock.\<close>

definition lockable :: "stmt_env \<Rightarrow> store \<Rightarrow> OrderItemRequest \<Rightarrow> bool" where
  "lockable env st item =
     (store_fault env = None \<and> ProductID item \<notin> locked_by_other env
      \<and> (case products st (ProductID item) of
            None \<Rightarrow> False
          | Some p \<Rightarrow> Quantity item \<le> StockQuantity p))"

subsection \<open>A checkout that meets a locked row\<close>

text \<open>
  One user orders two widgets. During the first attempt another transaction holds the
  widget's row; afterwards the row is free.
\<close>

definition contended :: "int \<Rightarrow> tx_world attempt_env" where
  "contended k =
     \<lparr>ctx_done_at_start = None, begin_result = None,
      world = \<lparr>stmts = (\<lambda>n. quiet\<lparr>locked_by_other := (if k = 0 then {1} else {})\<rparr>),
               order_number = ''ORD-1700000000000000000''\<rparr>,
      rollback_result = None, commit_result = None, rand_draw = 7, ctx_done_in_sleep = None\<rparr>"

definition two_widgets :: CreateOrderRequest where
  "two_widgets = \<lparr>UserID = 1, Request_Items = [\<lparr>ProductID = 1, Quantity = 2\<rparr>]\<rparr>"

definition six_widgets :: CreateOrderRequest where
  "six_widgets = \<lparr>UserID = 1, Request_Items = [\<lparr>ProductID = 1, Quantity = 6\<rparr>]\<rparr>"

section \<open>Cursor pagination (store/pagination.go, ListOrdersCursor)\<close>

record OrderCursor =
  Cursor_CreatedAt :: int
  Cursor_ID :: int

record CursorPage =
  Page_Items :: "Order list"
  NextCursor :: string
  HasMore :: bool

text \<open>
  The encoding is done by Go's standard library, which is not part of the repository; its
  functions are parameters of the model: the text \<open>json.Marshal\<close> produces for a cursor it
  accepts, \<open>json.Unmarshal\<close> (which fills the cursor it is given and may fail), and the
  two directions of \<open>base64.URLEncoding\<close>.
\<close>

record library =
  json_text :: "OrderCursor \<Rightarrow> string"
  json_Unmarshal :: "string \<Rightarrow> OrderCursor \<Rightarrow> OrderCursor \<times> err option"
  base64_EncodeToString :: "string \<Rightarrow> string"
  base64_DecodeString :: "string \<Rightarrow> err + string"

text \<open>
  \<open>json.Marshal\<close> of a cursor fails exactly when \<open>Time.MarshalJSON\<close> does: when the
  year of the timestamp lies outside \<open>[0, 9999]\<close>. Year 0 begins 62167219200 seconds
  before the Unix epoch and year 10000 begins 253402300800 seconds after it.
\<close>

definition year_in_range :: "int \<Rightarrow> bool" where
  "year_in_range t = (- 62167219200 * 1000000000 \<le> t \<and> t < 253402300800 * 1000000000)"

definition json_Marshal :: "library \<Rightarrow> OrderCursor \<Rightarrow> err + string" where
  "json_Marshal lib cursor =
     (if year_in_range (Cursor_CreatedAt cursor) then Inr (json_text lib cursor)
      else Inl (OtherErr ''Time.MarshalJSON: year outside of range [0,9999]''))"

definition EncodeCursor :: "library \<Rightarrow> OrderCursor \<Rightarrow> string" where
  "EncodeCursor lib cursor =
     (case json_Marshal lib cursor of
        Inl err \<Rightarrow> []
      | Inr data \<Rightarrow> base64_EncodeToString lib data)"

text \<open>The zero value of the cursor: Go's zero time (1 January of year 1, UTC) and id 0.\<close>

definition zero_cursor :: OrderCursor where
  "zero_cursor = \<lparr>Cursor_CreatedAt = - 62135596800 * 1000000000, Cursor_ID = 0\<rparr>"

text \<open>\<open>DecodeCursor\<close>; \<open>now\<close> is what \<open>time.Now()\<close> reads.\<close>

definition DecodeCursor :: "library \<Rightarrow> int \<Rightarrow> string \<Rightarrow> OrderCursor \<times> err option" where
  "DecodeCursor lib now encoded =
     (if encoded = [] then
        (\<lparr>Cursor_CreatedAt = now, Cursor_ID = 2 ^ 63 - 1\<rparr>, None)
      else
        (case base64_DecodeString lib encoded of
           Inl err \<Rightarrow> (zero_cursor, Some err)
         | Inr data \<Rightarrow> json_Unmarshal lib data zero_cursor))"

text \<open>
  What the store answers to the listing query: a fault of the query itself, a failure of
  \<open>rows.Scan\<close> and the final \<open>rows.Err()\<close>.
\<close>

record query_env =
  query_fault :: "err option"
  scan_fault :: "err option"
  rows_err :: "err option"

text \<open>
  The rows the listing query addresses: those of the user that lie strictly below the
  position in the row order \<open>(created_at, id)\<close>, greatest first.
\<close>

definition rows_below :: "store \<Rightarrow> int \<Rightarrow> int \<Rightarrow> int \<Rightarrow> Order list" where
  "rows_below st userID createdAt ident =
     rev (sort_key (\<lambda>ord. (Order_CreatedAt ord, Order_ID ord))
       (filter (\<lambda>ord. Order_UserID ord = userID
                  \<and> (Order_CreatedAt ord, Order_ID ord) < (createdAt, ident))
          (orders st)))"

text \<open>
  \<open>SELECT ... FROM orders WHERE user_id = $1 AND (created_at, id) < ($2, $3)
  ORDER BY created_at DESC, id DESC LIMIT $4\<close>; a negative limit is an error of the
  store.
\<close>

definition query_orders_below ::
  "query_env \<Rightarrow> store \<Rightarrow> int \<Rightarrow> int \<Rightarrow> int \<Rightarrow> int \<Rightarrow> err + Order list" where
  "query_orders_below env st userID createdAt ident lim =
     (case query_fault env of
        Some e \<Rightarrow> Inl e
      | None \<Rightarrow>
          if lim < 0 then Inl (PqError ''2201W'')
          else Inr (take (nat lim) (rows_below st userID createdAt ident)))"

text \<open>\<open>rows.Scan\<close> fills the selected columns; user id and items keep their zero values.\<close>

definition scan_order :: "Order \<Rightarrow> Order" where
  "scan_order row = row\<lparr>Order_UserID := 0, Items := []\<rparr>"

datatype list_outcome = ListReturned "CursorPage option" "err option" | ListPanicked

definition ListOrdersCursor ::
  "library \<Rightarrow> int \<Rightarrow> query_env \<Rightarrow> store \<Rightarrow> int \<Rightarrow> string \<Rightarrow> int \<Rightarrow> list_outcome" where
  "ListOrdersCursor lib now env st userID cursor limit =
     (case DecodeCursor lib now cursor of
        (cursorData, Some err) \<Rightarrow> ListReturned None (Some (Wrap (Msg ''decode cursor'') err))
      | (cursorData, None) \<Rightarrow>
     (case query_orders_below env st userID (Cursor_CreatedAt cursorData) (Cursor_ID cursorData)
             (wrap64 (limit + 1)) of
        Inl err \<Rightarrow> ListReturned None (Some (Wrap (Msg ''list orders'') err))
      | Inr rows \<Rightarrow>
     (case (if rows = [] then None else scan_fault env) of
        Some err \<Rightarrow> ListReturned None (Some (Wrap (Msg ''scan order'') err))
      | None \<Rightarrow>
     (case rows_err env of
        Some err \<Rightarrow> ListReturned None (Some (Wrap (Msg ''rows error'') err))
      | None \<Rightarrow>
     (let orders = map scan_order rows;
          hasMore = (int (length orders) > limit)
      in if hasMore \<and> limit < 0 then ListPanicked
         else
           (let orders = (if hasMore then take (nat limit) orders else orders);
                nextCursor =
                  (if hasMore \<and> length orders > 0 then
                     EncodeCursor lib
                       \<lparr>Cursor_CreatedAt = Order_CreatedAt (last orders),
                        Cursor_ID = Order_ID (last orders)\<rparr>
                   else [])
            in ListReturned
                 (Some \<lparr>Page_Items = orders, NextCursor = nextCursor, HasMore = hasMore\<rparr>)
                 None))))))"

subsection \<open>A small order book and a toy library\<close>

text \<open>
  A stand-in for the library, good enough to run the listing: the text of a cursor is two
  characters, and the base-64 step prefixes a marker.
\<close>

definition toy_library :: library where
  "toy_library =
     \<lparr>json_text = (\<lambda>c. [char_of (Cursor_CreatedAt c), char_of (Cursor_ID c)]),
      json_Unmarshal = (\<lambda>data c.
         case data of
           [a, b] \<Rightarrow> (\<lparr>Cursor_CreatedAt = of_char a, Cursor_ID = of_char b\<rparr>, None)
         | _ \<Rightarrow> (c, Some (OtherErr ''unexpected end of JSON input''))),
      base64_EncodeToString = (\<lambda>data. CHR ''b'' # data),
      base64_DecodeString = (\<lambda>s.
         case s of
           [] \<Rightarrow> Inr []
         | x # data \<Rightarrow> if x = CHR ''b'' then Inr data
                       else Inl (OtherErr ''illegal base64 data at input byte 0''))\<rparr>"

definition no_faults :: query_env where
  "no_faults = \<lparr>query_fault = None, scan_fault = None, rows_err = None\<rparr>"

definition order_at :: "int \<Rightarrow> int \<Rightarrow> Order" where
  "order_at ident createdAt =
     \<lparr>Order_ID = ident, Order_UserID = 1, OrderNumber = ''ORD'', Status = ''pending'',
      TotalAmount = 100, Order_CreatedAt = createdAt, Order_UpdatedAt = createdAt,
      Order_Version = 1, Items = []\<rparr>"

definition order_book :: store where
  "order_book = shop\<lparr>orders := [order_at 1 10, order_at 2 20, order_at 3 20, order_at 4 30]\<rparr>"

section \<open>Properties of the classifier\<close>

lemma errors_As_pq_root: "errors_As_pq e = Some c \<longleftrightarrow> root_cause e = PqError c"
  by (induction e) auto

lemma errors_As_pq_not_found: "is_not_found e \<Longrightarrow> errors_As_pq e = None"
  by (induction e) (auto simp: is_not_found_def)

text \<open>
  Claim C5. The classifier sends the four constraint-violation codes (23505 unique,
  23503 foreign key, 23502 not null, 23514 check) and every not-found condition to
  Permanent, the lock-not-available code 55P03 to Transient, the deadlock code 40P01 to
  Deadlock, the serialization-failure code 40001 to SerializationConflict, and every error
  that carries none of these codes (and \<open>nil\<close>) to Permanent; \<open>IsRetryable\<close> holds
  exactly for the classes Transient, Deadlock and SerializationConflict.
\<close>

theorem ClassifyError_policy:
  "(errors_As_pq e = Some c \<and> c \<in> {''23505'', ''23503'', ''23502'', ''23514''}
      \<longrightarrow> ClassifyError (Some e) = ErrorClassPermanent)
   \<and> (is_not_found e \<longrightarrow> ClassifyError (Some e) = ErrorClassPermanent)
   \<and> (errors_As_pq e = Some ''55P03'' \<longrightarrow> ClassifyError (Some e) = ErrorClassTransient)
   \<and> (errors_As_pq e = Some ''40P01'' \<longrightarrow> ClassifyError (Some e) = ErrorClassDeadlock)
   \<and> (errors_As_pq e = Some ''40001'' \<longrightarrow> ClassifyError (Some e) = ErrorClassSerialization)
   \<and> (errors_As_pq e \<notin> {Some ''55P03'', Some ''40P01'', Some ''40001''}
      \<longrightarrow> ClassifyError (Some e) = ErrorClassPermanent)
   \<and> ClassifyError None = ErrorClassPermanent
   \<and> (IsRetryable x \<longleftrightarrow>
        ClassifyError x \<in> {ErrorClassTransient, ErrorClassDeadlock, ErrorClassSerialization})"
proof -
  have nf: "is_not_found e \<longrightarrow> ClassifyError (Some e) = ErrorClassPermanent"
    using errors_As_pq_not_found [of e] by (simp add: ClassifyError_def)
  have other: "errors_As_pq e \<notin> {Some ''55P03'', Some ''40P01'', Some ''40001''}
      \<longrightarrow> ClassifyError (Some e) = ErrorClassPermanent"
    by (cases "errors_As_pq e") (simp_all add: ClassifyError_def)
  have retry: "IsRetryable x \<longleftrightarrow>
        ClassifyError x \<in> {ErrorClassTransient, ErrorClassDeadlock, ErrorClassSerialization}"
    by (simp add: IsRetryable_def Let_def)
  show ?thesis
    using nf other retry by (simp add: ClassifyError_def)
qed

theorem ClassifyError_policy_witness:
  "ClassifyError (Some (Wrap (Msg ''create user'') (PqError ''23505''))) = ErrorClassPermanent
   \<and> ClassifyError (Some (Sentinel ErrProductNotFound)) = ErrorClassPermanent
   \<and> ClassifyError (Some (Wrap (MsgId ''lock product'' 7) (PqError ''55P03''))) = ErrorClassTransient
   \<and> ClassifyError (Some (PqError ''40P01'')) = ErrorClassDeadlock
   \<and> ClassifyError (Some (PqError ''40001'')) = ErrorClassSerialization
   \<and> ClassifyError (Some (OtherErr ''connection reset'')) = ErrorClassPermanent
   \<and> IsRetryable (Some (PqError ''40001''))
   \<and> \<not> IsRetryable (Some (Sentinel ErrLockTimeout))"
proof -
  have a: "ClassifyError (Some (Wrap (Msg ''create user'') (PqError ''23505''))) = ErrorClassPermanent"
    using ClassifyError_policy [of "Wrap (Msg ''create user'') (PqError ''23505'')" "''23505''"]
    by simp
  have b: "ClassifyError (Some (Sentinel ErrProductNotFound)) = ErrorClassPermanent"
    using ClassifyError_policy [of "Sentinel ErrProductNotFound"]
    by (simp add: is_not_found_def)
  have c: "ClassifyError (Some (Wrap (MsgId ''lock product'' 7) (PqError ''55P03''))) = ErrorClassTransient"
    using ClassifyError_policy [of "Wrap (MsgId ''lock product'' 7) (PqError ''55P03'')"]
    by simp
  have d: "ClassifyError (Some (PqError ''40P01'')) = ErrorClassDeadlock"
    using ClassifyError_policy [of "PqError ''40P01''"] by simp
  have e: "ClassifyError (Some (PqError ''40001'')) = ErrorClassSerialization"
    using ClassifyError_policy [of "PqError ''40001''"] by simp
  have f: "ClassifyError (Some (OtherErr ''connection reset'')) = ErrorClassPermanent"
    using ClassifyError_policy [of "OtherErr ''connection reset''"] by simp
  have g: "IsRetryable (Some (PqError ''40001''))"
    using ClassifyError_policy [of _ _ "Some (PqError ''40001'')"] e by simp
  have h: "\<not> IsRetryable (Some (Sentinel ErrLockTimeout))"
    using ClassifyError_policy [of "Sentinel ErrLockTimeout" _ "Some (Sentinel ErrLockTimeout)"]
    by simp
  show ?thesis using a b c d e f g h by simp
qed

section \<open>Properties of the retrying executor\<close>

declare WithRetry_loop.simps [simp del]

lemma WithRetry_loop_done:
  "\<not> attempt \<le> MaxRetries opts \<Longrightarrow>
   WithRetry_loop env opts fn attempt backoff lastErr s = (Returned lastErr, s, [])"
  by (subst WithRetry_loop.simps) simp

lemma WithRetry_loop_Return:
  "attempt \<le> MaxRetries opts \<Longrightarrow>
   run_attempt (env attempt) opts fn attempt backoff s = (Return r, s', evs) \<Longrightarrow>
   WithRetry_loop env opts fn attempt backoff lastErr s = (Returned r, s', evs)"
  by (subst WithRetry_loop.simps) simp

lemma WithRetry_loop_Panic:
  "attempt \<le> MaxRetries opts \<Longrightarrow>
   run_attempt (env attempt) opts fn attempt backoff s = (Panic, s', evs) \<Longrightarrow>
   WithRetry_loop env opts fn attempt backoff lastErr s = (Panicked, s', evs)"
  by (subst WithRetry_loop.simps) simp

lemma WithRetry_loop_Continue:
  "attempt \<le> MaxRetries opts \<Longrightarrow>
   run_attempt (env attempt) opts fn attempt backoff s = (Continue b e, s', evs) \<Longrightarrow>
   WithRetry_loop env opts fn attempt backoff lastErr s =
     prepend evs (WithRetry_loop env opts fn (attempt + 1) b (Some e) s')"
  by (subst WithRetry_loop.simps) simp

lemma wrap64_id: "- (2 ^ 63) \<le> x \<Longrightarrow> x < 2 ^ 63 \<Longrightarrow> wrap64 x = x"
  by (simp add: wrap64_def)

lemma go_quot_nonneg: "0 \<le> a \<Longrightarrow> 0 < b \<Longrightarrow> go_quot a b = a div b"
  by (cases "a = 0") (simp_all add: go_quot_def)

lemma quarter_exact:
  assumes "4 \<le> b" "b < 2 ^ 62"
  shows "wrap64 (go_quot b 4) = b div 4" "0 < b div 4"
  using assms by (simp_all add: go_quot_nonneg wrap64_id)

lemma jitter_bounds:
  assumes "4 \<le> (b::int)"
  shows "0 \<le> r mod (b div 4)" "r mod (b div 4) < b div 4" "r mod (b div 4) \<le> b div 4"
proof -
  have "0 < b div 4" using assms by simp
  then show "0 \<le> r mod (b div 4)" "r mod (b div 4) < b div 4" by simp_all
  then show "r mod (b div 4) \<le> b div 4" by simp
qed

lemma sleep_exact:
  assumes "4 \<le> b" "b < 2 ^ 62"
  shows "wrap64 (b + r mod (b div 4)) = b + r mod (b div 4)"
proof -
  have pos: "0 < b div 4" using assms(1) by simp
  have lo: "0 \<le> r mod (b div 4)" using pos by simp
  have hi: "r mod (b div 4) < b div 4" using pos by simp
  have q: "b div 4 \<le> b" using assms(1) by simp
  have b63: "b < 4611686018427387904" using assms(2) by simp
  have "- 9223372036854775808 \<le> b + r mod (b div 4)" using lo assms(1) by linarith
  moreover have "b + r mod (b div 4) < 9223372036854775808" using hi q b63 by linarith
  ultimately show ?thesis by (simp add: wrap64_id)
qed

lemma double_exact:
  assumes "4 \<le> b" "b < 2 ^ 62"
  shows "wrap64 (b * 2) = 2 * b"
  using assms by (simp add: wrap64_id)

lemma not_permanent_iff: "ClassifyError x \<noteq> ErrorClassPermanent \<longleftrightarrow> IsRetryable x"
  by (cases "ClassifyError x") (simp_all add: IsRetryable_def Let_def)

lemma run_attempt_body_retry:
  assumes "ctx_done_at_start a = None" "begin_result a = None"
    and "fn (world a) s = (Some e, s')" "rollback_result a = None"
    and "IsRetryable (Some e)" "attempt \<noteq> MaxRetries opts"
    and "4 \<le> backoff" "backoff < 2 ^ 62" "ctx_done_in_sleep a = None"
  shows "run_attempt a opts fn attempt backoff s =
    (Continue (2 * backoff) e, s,
     [EvBegin (IsolationLevel opts) (ReadOnly opts), EvFn, EvRollback,
      EvSleep (backoff + rand_draw a mod (backoff div 4))])"
  using assms quarter_exact [of backoff] sleep_exact [of backoff "rand_draw a"] double_exact [of backoff]
  by (simp add: run_attempt_def Let_def not_permanent_iff [symmetric])

lemma run_attempt_commit_retry:
  assumes "ctx_done_at_start a = None" "begin_result a = None"
    and "fn (world a) s = (None, s')" "commit_result a = Some e"
    and "IsRetryable (Some e)" "attempt \<noteq> MaxRetries opts"
    and "4 \<le> backoff" "backoff < 2 ^ 62" "ctx_done_in_sleep a = None"
  shows "run_attempt a opts fn attempt backoff s =
    (Continue (2 * backoff) e, s,
     [EvBegin (IsolationLevel opts) (ReadOnly opts), EvFn, EvCommit,
      EvSleep (backoff + rand_draw a mod (backoff div 4))])"
  using assms quarter_exact [of backoff] sleep_exact [of backoff "rand_draw a"] double_exact [of backoff]
  by (simp add: run_attempt_def Let_def not_permanent_iff [symmetric])

text \<open>
  Claim C6. In any pass through the loop that gets as far as running the unit of work:
  a body failure classified Permanent is returned at once, with no sleep and no further
  attempt; a retryable body failure with attempts remaining sleeps \<open>backoff + jitter\<close>,
  where \<open>0 \<le> jitter \<le> backoff / 4\<close>, and the loop goes on with the next attempt and
  twice the backoff; at the last attempt the error is returned wrapped in the
  max-retries-exceeded message; a commit failure is classified and treated by the same
  three rules (a Permanent one is wrapped in the commit message); and the first backoff
  is 50 ms (in nanoseconds). The bounds on \<open>backoff\<close> are those within which Go's
  \<open>int64\<close> arithmetic is exact; 50 ms doubled up to 36 times stays within them.
\<close>

theorem WithRetry_policy:
  assumes "attempt \<le> MaxRetries opts"
    and "ctx_done_at_start (env attempt) = None"
    and "begin_result (env attempt) = None"
  shows
   "(fn (world (env attempt)) s = (Some e, s') \<and> rollback_result (env attempt) = None
       \<and> ClassifyError (Some e) = ErrorClassPermanent
     \<longrightarrow> WithRetry_loop env opts fn attempt backoff lastErr s =
          (Returned (Some e), s,
           [EvBegin (IsolationLevel opts) (ReadOnly opts), EvFn, EvRollback]))
    \<and> (fn (world (env attempt)) s = (Some e, s') \<and> rollback_result (env attempt) = None
       \<and> IsRetryable (Some e) \<and> attempt \<noteq> MaxRetries opts
       \<and> 4 \<le> backoff \<and> backoff < 2 ^ 62 \<and> ctx_done_in_sleep (env attempt) = None
     \<longrightarrow> WithRetry_loop env opts fn attempt backoff lastErr s =
          prepend [EvBegin (IsolationLevel opts) (ReadOnly opts), EvFn, EvRollback,
                   EvSleep (backoff + rand_draw (env attempt) mod (backoff div 4))]
            (WithRetry_loop env opts fn (attempt + 1) (2 * backoff) (Some e) s)
        \<and> 0 \<le> rand_draw (env attempt) mod (backoff div 4)
        \<and> rand_draw (env attempt) mod (backoff div 4) \<le> backoff div 4)
    \<and> (fn (world (env attempt)) s = (Some e, s') \<and> rollback_result (env attempt) = None
       \<and> IsRetryable (Some e) \<and> attempt = MaxRetries opts
     \<longrightarrow> WithRetry_loop env opts fn attempt backoff lastErr s =
          (Returned (Some (Wrap (MaxRetriesExceeded (MaxRetries opts)) e)), s,
           [EvBegin (IsolationLevel opts) (ReadOnly opts), EvFn, EvRollback]))
    \<and> (fn (world (env attempt)) s = (None, s') \<and> commit_result (env attempt) = Some e
       \<and> ClassifyError (Some e) = ErrorClassPermanent
     \<longrightarrow> WithRetry_loop env opts fn attempt backoff lastErr s =
          (Returned (Some (Wrap CommitTransaction e)), s,
           [EvBegin (IsolationLevel opts) (ReadOnly opts), EvFn, EvCommit]))
    \<and> (fn (world (env attempt)) s = (None, s') \<and> commit_result (env attempt) = Some e
       \<and> IsRetryable (Some e) \<and> attempt \<noteq> MaxRetries opts
       \<and> 4 \<le> backoff \<and> backoff < 2 ^ 62 \<and> ctx_done_in_sleep (env attempt) = None
     \<longrightarrow> WithRetry_loop env opts fn attempt backoff lastErr s =
          prepend [EvBegin (IsolationLevel opts) (ReadOnly opts), EvFn, EvCommit,
                   EvSleep (backoff + rand_draw (env attempt) mod (backoff div 4))]
            (WithRetry_loop env opts fn (attempt + 1) (2 * backoff) (Some e) s)
        \<and> 0 \<le> rand_draw (env attempt) mod (backoff div 4)
        \<and> rand_draw (env attempt) mod (backoff div 4) \<le> backoff div 4)
    \<and> (fn (world (env attempt)) s = (None, s') \<and> commit_result (env attempt) = Some e
       \<and> IsRetryable (Some e) \<and> attempt = MaxRetries opts
     \<longrightarrow> WithRetry_loop env opts fn attempt backoff lastErr s =
          (Returned (Some (Wrap (MaxRetriesExceededOnCommit (MaxRetries opts)) e)), s,
           [EvBegin (IsolationLevel opts) (ReadOnly opts), EvFn, EvCommit]))
    \<and> WithRetry env opts fn s = WithRetry_loop env opts fn 0 50000000 None s"
proof -
  let ?a = "env attempt"
  have c1: "fn (world ?a) s = (Some e, s') \<and> rollback_result ?a = None
       \<and> ClassifyError (Some e) = ErrorClassPermanent
     \<longrightarrow> WithRetry_loop env opts fn attempt backoff lastErr s =
          (Returned (Some e), s,
           [EvBegin (IsolationLevel opts) (ReadOnly opts), EvFn, EvRollback])"
    using assms by (auto intro!: WithRetry_loop_Return simp: run_attempt_def)
  have c2: "fn (world ?a) s = (Some e, s') \<and> rollback_result ?a = None
       \<and> IsRetryable (Some e) \<and> attempt \<noteq> MaxRetries opts
       \<and> 4 \<le> backoff \<and> backoff < 2 ^ 62 \<and> ctx_done_in_sleep ?a = None
     \<longrightarrow> WithRetry_loop env opts fn attempt backoff lastErr s =
          prepend [EvBegin (IsolationLevel opts) (ReadOnly opts), EvFn, EvRollback,
                   EvSleep (backoff + rand_draw ?a mod (backoff div 4))]
            (WithRetry_loop env opts fn (attempt + 1) (2 * backoff) (Some e) s)
        \<and> 0 \<le> rand_draw ?a mod (backoff div 4)
        \<and> rand_draw ?a mod (backoff div 4) \<le> backoff div 4"
    using assms jitter_bounds [of backoff "rand_draw ?a"]
    by (auto intro!: WithRetry_loop_Continue run_attempt_body_retry)
  have c3: "fn (world ?a) s = (Some e, s') \<and> rollback_result ?a = None
       \<and> IsRetryable (Some e) \<and> attempt = MaxRetries opts
     \<longrightarrow> WithRetry_loop env opts fn attempt backoff lastErr s =
          (Returned (Some (Wrap (MaxRetriesExceeded (MaxRetries opts)) e)), s,
           [EvBegin (IsolationLevel opts) (ReadOnly opts), EvFn, EvRollback])"
    using assms
    by (auto intro!: WithRetry_loop_Return simp: run_attempt_def not_permanent_iff [symmetric])
  have c4: "fn (world ?a) s = (None, s') \<and> commit_result ?a = Some e
       \<and> ClassifyError (Some e) = ErrorClassPermanent
     \<longrightarrow> WithRetry_loop env opts fn attempt backoff lastErr s =
          (Returned (Some (Wrap CommitTransaction e)), s,
           [EvBegin (IsolationLevel opts) (ReadOnly opts), EvFn, EvCommit])"
    using assms by (auto intro!: WithRetry_loop_Return simp: run_attempt_def)
  have c5: "fn (world ?a) s = (None, s') \<and> commit_result ?a = Some e
       \<and> IsRetryable (Some e) \<and> attempt \<noteq> MaxRetries opts
       \<and> 4 \<le> backoff \<and> backoff < 2 ^ 62 \<and> ctx_done_in_sleep ?a = None
     \<longrightarrow> WithRetry_loop env opts fn attempt backoff lastErr s =
          prepend [EvBegin (IsolationLevel opts) (ReadOnly opts), EvFn, EvCommit,
                   EvSleep (backoff + rand_draw ?a mod (backoff div 4))]
            (WithRetry_loop env opts fn (attempt + 1) (2 * backoff) (Some e) s)
        \<and> 0 \<le> rand_draw ?a mod (backoff div 4)
        \<and> rand_draw ?a mod (backoff div 4) \<le> backoff div 4"
    using assms jitter_bounds [of backoff "rand_draw ?a"]
    by (auto intro!: WithRetry_loop_Continue run_attempt_commit_retry)
  have c6: "fn (world ?a) s = (None, s') \<and> commit_result ?a = Some e
       \<and> IsRetryable (Some e) \<and> attempt = MaxRetries opts
     \<longrightarrow> WithRetry_loop env opts fn attempt backoff lastErr s =
          (Returned (Some (Wrap (MaxRetriesExceededOnCommit (MaxRetries opts)) e)), s,
           [EvBegin (IsolationLevel opts) (ReadOnly opts), EvFn, EvCommit])"
    using assms
    by (auto intro!: WithRetry_loop_Return simp: run_attempt_def not_permanent_iff [symmetric])
  have c7: "WithRetry env opts fn s = WithRetry_loop env opts fn 0 50000000 None s"
    by (simp add: WithRetry_def)
  show ?thesis using c1 c2 c3 c4 c5 c6 c7 by blast
qed


text \<open>
  Claim C9. The context is consulted before each attempt and during each backoff sleep.
  When it is done at the start of an attempt, the executor returns \<open>ctx.Err()\<close> itself
  without beginning a transaction; when it becomes done during the sleep that follows a
  retryable body or commit failure, the executor returns \<open>ctx.Err()\<close> itself and makes
  no further attempt. In neither case is the result a wrapped (retries-exhausted, commit,
  begin or rollback) error, and a pass in which the context is done during the sleep
  never completes a sleep and never continues the loop.
\<close>

theorem WithRetry_cancellation:
  assumes "attempt \<le> MaxRetries opts"
  shows
   "(ctx_done_at_start (env attempt) = Some c
     \<longrightarrow> WithRetry_loop env opts fn attempt backoff lastErr s =
          (Returned (Some (ctx_Err c)), s, []))
    \<and> (ctx_done_at_start (env attempt) = None \<and> begin_result (env attempt) = None
       \<and> fn (world (env attempt)) s = (Some e, s') \<and> rollback_result (env attempt) = None
       \<and> IsRetryable (Some e) \<and> attempt \<noteq> MaxRetries opts
       \<and> 0 < wrap64 (go_quot backoff 4) \<and> ctx_done_in_sleep (env attempt) = Some c
     \<longrightarrow> WithRetry_loop env opts fn attempt backoff lastErr s =
          (Returned (Some (ctx_Err c)), s,
           [EvBegin (IsolationLevel opts) (ReadOnly opts), EvFn, EvRollback,
            EvSleepCancelled
              (wrap64 (backoff + rand_draw (env attempt) mod wrap64 (go_quot backoff 4)))]))
    \<and> (ctx_done_at_start (env attempt) = None \<and> begin_result (env attempt) = None
       \<and> fn (world (env attempt)) s = (None, s') \<and> commit_result (env attempt) = Some e
       \<and> IsRetryable (Some e) \<and> attempt \<noteq> MaxRetries opts
       \<and> 0 < wrap64 (go_quot backoff 4) \<and> ctx_done_in_sleep (env attempt) = Some c
     \<longrightarrow> WithRetry_loop env opts fn attempt backoff lastErr s =
          (Returned (Some (ctx_Err c)), s,
           [EvBegin (IsolationLevel opts) (ReadOnly opts), EvFn, EvCommit,
            EvSleepCancelled
              (wrap64 (backoff + rand_draw (env attempt) mod wrap64 (go_quot backoff 4)))]))
    \<and> (ctx_done_in_sleep (env attempt) = Some c
     \<longrightarrow> (\<forall>b e'. fst (run_attempt (env attempt) opts fn attempt backoff s) \<noteq> Continue b e')
        \<and> (\<forall>d. EvSleep d \<notin> set (snd (snd (run_attempt (env attempt) opts fn attempt backoff s)))))
    \<and> (\<forall>m e'. ctx_Err c \<noteq> Wrap m e') \<and> (\<forall>rb e'. ctx_Err c \<noteq> RollbackFailed rb e')"
proof -
  let ?a = "env attempt"
  have c1: "ctx_done_at_start ?a = Some c
     \<longrightarrow> WithRetry_loop env opts fn attempt backoff lastErr s =
          (Returned (Some (ctx_Err c)), s, [])"
    using assms by (auto intro!: WithRetry_loop_Return simp: run_attempt_def)
  have c2: "ctx_done_at_start ?a = None \<and> begin_result ?a = None
       \<and> fn (world ?a) s = (Some e, s') \<and> rollback_result ?a = None
       \<and> IsRetryable (Some e) \<and> attempt \<noteq> MaxRetries opts
       \<and> 0 < wrap64 (go_quot backoff 4) \<and> ctx_done_in_sleep ?a = Some c
     \<longrightarrow> WithRetry_loop env opts fn attempt backoff lastErr s =
          (Returned (Some (ctx_Err c)), s,
           [EvBegin (IsolationLevel opts) (ReadOnly opts), EvFn, EvRollback,
            EvSleepCancelled
              (wrap64 (backoff + rand_draw ?a mod wrap64 (go_quot backoff 4)))])"
    using assms
    by (auto intro!: WithRetry_loop_Return
             simp: run_attempt_def Let_def not_permanent_iff [symmetric])
  have c3: "ctx_done_at_start ?a = None \<and> begin_result ?a = None
       \<and> fn (world ?a) s = (None, s') \<and> commit_result ?a = Some e
       \<and> IsRetryable (Some e) \<and> attempt \<noteq> MaxRetries opts
       \<and> 0 < wrap64 (go_quot backoff 4) \<and> ctx_done_in_sleep ?a = Some c
     \<longrightarrow> WithRetry_loop env opts fn attempt backoff lastErr s =
          (Returned (Some (ctx_Err c)), s,
           [EvBegin (IsolationLevel opts) (ReadOnly opts), EvFn, EvCommit,
            EvSleepCancelled
              (wrap64 (backoff + rand_draw ?a mod wrap64 (go_quot backoff 4)))])"
    using assms
    by (auto intro!: WithRetry_loop_Return
             simp: run_attempt_def Let_def not_permanent_iff [symmetric])
  have c4: "ctx_done_in_sleep ?a = Some c
     \<longrightarrow> (\<forall>b e'. fst (run_attempt ?a opts fn attempt backoff s) \<noteq> Continue b e')
        \<and> (\<forall>d. EvSleep d \<notin> set (snd (snd (run_attempt ?a opts fn attempt backoff s))))"
    by (auto simp: run_attempt_def Let_def split: option.splits prod.splits if_splits)
  have c5: "(\<forall>m e'. ctx_Err c \<noteq> Wrap m e') \<and> (\<forall>rb e'. ctx_Err c \<noteq> RollbackFailed rb e')"
    by (cases c) simp_all
  show ?thesis using c1 c2 c3 c4 c5 by blast
qed


lemma prepend_simp [simp]: "prepend evs (out, s, evs') = (out, s, evs @ evs')"
  by (simp add: prepend_def)

lemma retryable_codes [simp]:
  "IsRetryable (Some (PqError ''40P01''))"
  "IsRetryable (Some (PqError ''40001''))"
  "IsRetryable (Some (Wrap m (PqError ''40001'')))"
  "IsRetryable (Some (Wrap m (PqError ''55P03'')))"
  by (simp_all add: IsRetryable_def ClassifyError_def)

theorem WithRetry_policy_witness:
  "WithRetry script_three (opts_retries 2) scripted_fn 0 =
     (Returned (Some (Wrap (MaxRetriesExceeded 2) (Wrap (Msg ''update stock'') (PqError ''40001'')))),
      0,
      [EvBegin LevelSerializable False, EvFn, EvRollback, EvSleep 50000007,
       EvBegin LevelSerializable False, EvFn, EvCommit, EvSleep 112500003,
       EvBegin LevelSerializable False, EvFn, EvRollback])"
proof -
  let ?o = "opts_retries 2"
  have s0: "WithRetry script_three ?o scripted_fn 0 =
            WithRetry_loop script_three ?o scripted_fn 0 50000000 None 0"
    using WithRetry_policy [where attempt = 0 and opts = "?o" and env = script_three
                               and fn = scripted_fn and s = 0]
    by (simp add: opts_retries_def script_three_def scripted_attempt_def)
  have s1: "WithRetry_loop script_three ?o scripted_fn 0 50000000 None 0 =
            prepend [EvBegin LevelSerializable False, EvFn, EvRollback, EvSleep 50000007]
              (WithRetry_loop script_three ?o scripted_fn 1 100000000 (Some (PqError ''40P01'')) 0)"
    using WithRetry_policy [where attempt = 0 and opts = "?o" and env = script_three
                               and fn = scripted_fn and s = 0 and e = "PqError ''40P01''"
                               and s' = "Suc 0" and backoff = 50000000 and lastErr = None]
    by (simp add: opts_retries_def script_three_def scripted_attempt_def scripted_fn_def)
  have s2: "WithRetry_loop script_three ?o scripted_fn 1 100000000 (Some (PqError ''40P01'')) 0 =
            prepend [EvBegin LevelSerializable False, EvFn, EvCommit, EvSleep 112500003]
              (WithRetry_loop script_three ?o scripted_fn 2 200000000 (Some (PqError ''40001'')) 0)"
    using WithRetry_policy [where attempt = 1 and opts = "?o" and env = script_three
                               and fn = scripted_fn and s = 0 and e = "PqError ''40001''"
                               and s' = "Suc 0" and backoff = 100000000
                               and lastErr = "Some (PqError ''40P01'')"]
    by (simp add: opts_retries_def script_three_def scripted_attempt_def scripted_fn_def)
  have s3: "WithRetry_loop script_three ?o scripted_fn 2 200000000 (Some (PqError ''40001'')) 0 =
            (Returned (Some (Wrap (MaxRetriesExceeded 2)
                (Wrap (Msg ''update stock'') (PqError ''40001'')))), 0,
             [EvBegin LevelSerializable False, EvFn, EvRollback])"
    using WithRetry_policy [where attempt = 2 and opts = "?o" and env = script_three
                               and fn = scripted_fn and s = 0
                               and e = "Wrap (Msg ''update stock'') (PqError ''40001'')"
                               and s' = "Suc 0" and backoff = 200000000
                               and lastErr = "Some (PqError ''40001'')"]
    by (simp add: opts_retries_def script_three_def scripted_attempt_def scripted_fn_def)
  show ?thesis by (simp add: s0 s1 s2 s3)
qed

theorem WithRetry_cancellation_witness:
  "WithRetry_loop script_cancel_start (opts_retries 3) scripted_fn 1 100000000
       (Some (PqError ''40P01'')) 0
     = (Returned (Some CtxCanceled), 0, [])
   \<and> WithRetry_loop script_cancel_sleep (opts_retries 3) scripted_fn 0 50000000 None 0
     = (Returned (Some CtxDeadlineExceeded), 0,
        [EvBegin LevelSerializable False, EvFn, EvRollback, EvSleepCancelled 50000007])"
proof -
  have a: "WithRetry_loop script_cancel_start (opts_retries 3) scripted_fn 1 100000000
       (Some (PqError ''40P01'')) 0 = (Returned (Some CtxCanceled), 0, [])"
    using WithRetry_cancellation [where attempt = 1 and opts = "opts_retries 3"
                                     and env = script_cancel_start and c = Canceled
                                     and fn = scripted_fn and backoff = 100000000
                                     and lastErr = "Some (PqError ''40P01'')" and s = 0]
    by (simp add: opts_retries_def script_cancel_start_def scripted_attempt_def)
  have b: "WithRetry_loop script_cancel_sleep (opts_retries 3) scripted_fn 0 50000000 None 0
     = (Returned (Some CtxDeadlineExceeded), 0,
        [EvBegin LevelSerializable False, EvFn, EvRollback, EvSleepCancelled 50000007])"
    using WithRetry_cancellation [where attempt = 0 and opts = "opts_retries 3"
                                     and env = script_cancel_sleep and c = DeadlineExceeded
                                     and fn = scripted_fn and s = 0 and e = "PqError ''40P01''"
                                     and s' = "Suc 0" and backoff = 50000000 and lastErr = None]
    by (simp add: opts_retries_def script_cancel_sleep_def scripted_attempt_def scripted_fn_def
                  wrap64_def go_quot_def)
  show ?thesis using a b by simp
qed

text \<open>
  Claim C10. With a strictly negative \<open>MaxRetries\<close> the loop body never runs:
  \<open>WithRetry\<close> returns \<open>nil\<close>, begins no transaction, never invokes the unit of work
  and leaves the state as it was.
\<close>

theorem WithRetry_negative_MaxRetries:
  "MaxRetries opts < 0 \<Longrightarrow> WithRetry env opts fn s = (Returned None, s, [])"
  by (simp add: WithRetry_def WithRetry_loop_done)

theorem WithRetry_negative_MaxRetries_witness:
  "MaxRetries (opts_retries (- 1)) < 0
   \<and> WithRetry script_three (opts_retries (- 1)) scripted_fn 0 = (Returned None, 0, [])"
proof -
  have h: "MaxRetries (opts_retries (- 1)) < 0" by (simp add: opts_retries_def)
  show ?thesis using h WithRetry_negative_MaxRetries [OF h, where env = script_three and fn = scripted_fn and s = 0] by simp
qed

section \<open>Properties of the inventory locking layer\<close>

lemma UpdateStockOptimistic_not_insufficient:
  "fst (UpdateStockOptimistic env st productID newStock version) \<noteq> Some (Sentinel ErrInsufficientStock)"
  by (auto simp: UpdateStockOptimistic_def exec_update_stock_versioned_def
           split: option.splits if_splits)

lemma DecrementStock_changes:
  "snd (DecrementStock env st productID quantity) \<noteq> st \<Longrightarrow>
   \<exists>p. products st productID = Some p \<and> quantity \<le> StockQuantity p"
  by (auto simp: DecrementStock_def exec_decrement_stock_def split: option.splits if_splits)

text \<open>
  Claim C3, as the code has it. With a revision that differs from the row's current one
  \<open>UpdateStockOptimistic\<close> fails with \<open>ErrOptimisticLockFailed\<close> and leaves the store
  (quantity and revision included) as it was. That error value differs from
  \<open>ErrProductNotFound\<close>, which the reading operations report for a missing row; but
  \<open>UpdateStockOptimistic\<close> itself answers a missing row with
  \<open>ErrOptimisticLockFailed\<close> as well, and never with a not-found error.
\<close>

theorem UpdateStockOptimistic_conflict:
  "(store_fault env = None \<and> rows_affected_fault env = None
      \<and> products st productID = Some p \<and> Product_Version p \<noteq> version
     \<longrightarrow> UpdateStockOptimistic env st productID newStock version =
          (Some (Sentinel ErrOptimisticLockFailed), st))
   \<and> (store_fault env = None \<and> rows_affected_fault env = None \<and> products st productID = None
     \<longrightarrow> UpdateStockOptimistic env st productID newStock version =
          (Some (Sentinel ErrOptimisticLockFailed), st))
   \<and> fst (UpdateStockOptimistic env st productID newStock version)
        \<noteq> Some (Sentinel ErrProductNotFound)
   \<and> Sentinel ErrOptimisticLockFailed \<noteq> Sentinel ErrProductNotFound
   \<and> (store_fault env = None \<and> products st productID = None
     \<longrightarrow> fst (ReserveStock env st productID quantity) = Inl (Sentinel ErrProductNotFound))"
  by (auto simp: UpdateStockOptimistic_def exec_update_stock_versioned_def ReserveStock_def
                 select_product_for_update_def
           split: option.splits if_splits)

theorem UpdateStockOptimistic_conflict_witness:
  "UpdateStockOptimistic quiet shop 1 4 1 = (Some (Sentinel ErrOptimisticLockFailed), shop)
   \<and> UpdateStockOptimistic quiet shop 7 4 2 = (Some (Sentinel ErrOptimisticLockFailed), shop)
   \<and> fst (ReserveStock quiet shop 7 1) = Inl (Sentinel ErrProductNotFound)"
  using UpdateStockOptimistic_conflict [where env = quiet and st = shop and productID = 1
          and p = widget and version = 1 and newStock = 4]
        UpdateStockOptimistic_conflict [where env = quiet and st = shop and productID = 7
          and version = 2 and newStock = 4 and quantity = 1]
  by (simp add: quiet_def shop_def widget_def)

text \<open>
  The claim as stated fails where the row does not exist: the outcome is the conflict
  error, the same as for a stale revision of an existing row.
\<close>

theorem UpdateStockOptimistic_missing_row_counterexample:
  "fst (UpdateStockOptimistic quiet shop 7 4 2) = Some (Sentinel ErrOptimisticLockFailed)
   \<and> products shop 7 = None
   \<and> fst (UpdateStockOptimistic quiet shop 7 4 2) = fst (UpdateStockOptimistic quiet shop 1 4 1)"
  by (simp add: UpdateStockOptimistic_def exec_update_stock_versioned_def quiet_def shop_def
                widget_def)

text \<open>
  Claim C4, as the code has it. \<open>ReserveStock\<close>, \<open>ReserveStockNoWait\<close> and
  \<open>DecrementStock\<close> compare the stored quantity with the requested one (the first two
  on the locked row they read, the third in the guard of its update) and answer a
  smaller stored quantity with \<open>ErrInsufficientStock\<close>, the store unchanged; the two
  reserve operations never change the store, and \<open>DecrementStock\<close> changes it only
  when the stored quantity covers the request. \<open>UpdateStockOptimistic\<close> makes no such
  comparison and never returns \<open>ErrInsufficientStock\<close>.
\<close>

theorem stock_check_before_mutation:
  "(store_fault env = None \<and> products st productID = Some p \<and> StockQuantity p < quantity
     \<longrightarrow> ReserveStock env st productID quantity = (Inl (Sentinel ErrInsufficientStock), st))
   \<and> (store_fault env = None \<and> products st productID = Some p \<and> StockQuantity p < quantity
       \<and> productID \<notin> locked_by_other env
     \<longrightarrow> ReserveStockNoWait env st productID quantity = (Inl (Sentinel ErrInsufficientStock), st))
   \<and> (store_fault env = None \<and> rows_affected_fault env = None
       \<and> products st productID = Some p \<and> StockQuantity p < quantity
     \<longrightarrow> DecrementStock env st productID quantity = (Some (Sentinel ErrInsufficientStock), st))
   \<and> snd (ReserveStock env st productID quantity) = st
   \<and> snd (ReserveStockNoWait env st productID quantity) = st
   \<and> (snd (DecrementStock env st productID quantity) \<noteq> st
     \<longrightarrow> (\<exists>p'. products st productID = Some p' \<and> quantity \<le> StockQuantity p'))
   \<and> fst (UpdateStockOptimistic env st productID newStock version)
        \<noteq> Some (Sentinel ErrInsufficientStock)"
proof -
  have r: "store_fault env = None \<and> products st productID = Some p \<and> StockQuantity p < quantity
     \<longrightarrow> ReserveStock env st productID quantity = (Inl (Sentinel ErrInsufficientStock), st)"
    by (simp add: ReserveStock_def select_product_for_update_def)
  have n: "store_fault env = None \<and> products st productID = Some p \<and> StockQuantity p < quantity
       \<and> productID \<notin> locked_by_other env
     \<longrightarrow> ReserveStockNoWait env st productID quantity = (Inl (Sentinel ErrInsufficientStock), st)"
    by (simp add: ReserveStockNoWait_def select_product_for_update_nowait_def)
  have d: "store_fault env = None \<and> rows_affected_fault env = None
       \<and> products st productID = Some p \<and> StockQuantity p < quantity
     \<longrightarrow> DecrementStock env st productID quantity = (Some (Sentinel ErrInsufficientStock), st)"
    by (simp add: DecrementStock_def exec_decrement_stock_def)
  have rs: "snd (ReserveStock env st productID quantity) = st"
    by (simp add: ReserveStock_def split: sum.splits)
  have ns: "snd (ReserveStockNoWait env st productID quantity) = st"
    by (simp add: ReserveStockNoWait_def split: sum.splits)
  show ?thesis
    using r n d rs ns DecrementStock_changes [of env st productID quantity]
      UpdateStockOptimistic_not_insufficient [of env st productID newStock version]
    by blast
qed

theorem stock_check_before_mutation_witness:
  "ReserveStock quiet shop 1 6 = (Inl (Sentinel ErrInsufficientStock), shop)
   \<and> ReserveStockNoWait quiet shop 1 6 = (Inl (Sentinel ErrInsufficientStock), shop)
   \<and> DecrementStock quiet shop 1 6 = (Some (Sentinel ErrInsufficientStock), shop)"
  using stock_check_before_mutation [where env = quiet and st = shop and productID = 1
          and p = widget and quantity = 6]
  by (simp add: quiet_def shop_def widget_def)

text \<open>
  The claim as stated fails for the optimistic update: asked to take 8 from a stock of 5
  (new quantity \<open>5 - 8\<close>, current revision), it returns the store's wrapped
  check-constraint error, not \<open>ErrInsufficientStock\<close>; and it writes any non-negative
  new quantity without comparing it to anything.
\<close>

theorem UpdateStockOptimistic_no_stock_check_counterexample:
  "fst (UpdateStockOptimistic quiet shop 1 (5 - 8) 2)
     = Some (Wrap (Msg ''update stock'') (PqError ''23514''))
   \<and> fst (UpdateStockOptimistic quiet shop 1 (5 - 8) 2) \<noteq> Some (Sentinel ErrInsufficientStock)
   \<and> fst (UpdateStockOptimistic quiet shop 1 1000 2) = None"
  by (simp add: UpdateStockOptimistic_def exec_update_stock_versioned_def quiet_def shop_def
                widget_def)

section \<open>Properties of order assembly\<close>

lemma lock_items_locked_at:
  assumes "i < length items"
    and "\<forall>j<i. lockable (envs (k + j)) st (items ! j)"
    and "store_fault (envs (k + i)) = None"
    and "products st (ProductID (items ! i)) = Some p"
    and "ProductID (items ! i) \<in> locked_by_other (envs (k + i))"
  shows "lock_items envs st k items productPrices totalAmount =
           Inl (Wrap (MsgId ''lock product'' (ProductID (items ! i))) (PqError ''55P03''))"
  using assms
proof (induction items arbitrary: i k productPrices totalAmount)
  case Nil
  then show ?case by simp
next
  case (Cons item rest)
  show ?case
  proof (cases i)
    case 0
    with Cons.prems show ?thesis
      by (simp add: select_product_for_update_nowait_def)
  next
    case (Suc i')
    have head: "lockable (envs k) st item"
      using Cons.prems(2) Suc by force
    have tail: "\<forall>j<i'. lockable (envs (Suc k + j)) st (rest ! j)"
      using Cons.prems(2) Suc by force
    have "lock_items envs st (Suc k) rest pp tt =
           Inl (Wrap (MsgId ''lock product'' (ProductID (rest ! i'))) (PqError ''55P03''))"
      for pp tt
      using Cons.IH [of i' "Suc k" pp tt] Cons.prems Suc tail by simp
    with head Suc show ?thesis
      by (auto simp: lockable_def select_product_for_update_nowait_def split: option.splits)
  qed
qed

lemma lock_items_insufficient_at:
  assumes "i < length items"
    and "\<forall>j<i. lockable (envs (k + j)) st (items ! j)"
    and "store_fault (envs (k + i)) = None"
    and "products st (ProductID (items ! i)) = Some p"
    and "ProductID (items ! i) \<notin> locked_by_other (envs (k + i))"
    and "StockQuantity p < Quantity (items ! i)"
  shows "lock_items envs st k items productPrices totalAmount = Inl (Sentinel ErrInsufficientStock)"
  using assms
proof (induction items arbitrary: i k productPrices totalAmount)
  case Nil
  then show ?case by simp
next
  case (Cons item rest)
  show ?case
  proof (cases i)
    case 0
    with Cons.prems show ?thesis
      by (simp add: select_product_for_update_nowait_def)
  next
    case (Suc i')
    have head: "lockable (envs k) st item"
      using Cons.prems(2) Suc by force
    have tail: "\<forall>j<i'. lockable (envs (Suc k + j)) st (rest ! j)"
      using Cons.prems(2) Suc by force
    have "lock_items envs st (Suc k) rest pp tt = Inl (Sentinel ErrInsufficientStock)"
      for pp tt
      using Cons.IH [of i' "Suc k" pp tt] Cons.prems Suc tail by simp
    with head Suc show ?thesis
      by (auto simp: lockable_def select_product_for_update_nowait_def split: option.splits)
  qed
qed

lemma create_order_tx_locked:
  assumes "store_fault (stmts w 0) = None" "UserID req \<in> users st"
    and "i < length (Request_Items req)"
    and "\<forall>j<i. lockable (stmts w (Suc j)) st (Request_Items req ! j)"
    and "store_fault (stmts w (Suc i)) = None"
    and "products st (ProductID (Request_Items req ! i)) = Some p"
    and "ProductID (Request_Items req ! i) \<in> locked_by_other (stmts w (Suc i))"
  shows "create_order_tx req w (st, order) =
           (Some (Wrap (MsgId ''lock product'' (ProductID (Request_Items req ! i)))
                    (PqError ''55P03'')), (st, order))"
  using assms lock_items_locked_at [of i "Request_Items req" "stmts w" 1 st p Map.empty 0]
  by (simp add: create_order_tx_def select_user_exists_def)

lemma create_order_tx_insufficient:
  assumes "store_fault (stmts w 0) = None" "UserID req \<in> users st"
    and "i < length (Request_Items req)"
    and "\<forall>j<i. lockable (stmts w (Suc j)) st (Request_Items req ! j)"
    and "store_fault (stmts w (Suc i)) = None"
    and "products st (ProductID (Request_Items req ! i)) = Some p"
    and "ProductID (Request_Items req ! i) \<notin> locked_by_other (stmts w (Suc i))"
    and "StockQuantity p < Quantity (Request_Items req ! i)"
  shows "create_order_tx req w (st, order) = (Some (Sentinel ErrInsufficientStock), (st, order))"
  using assms lock_items_insufficient_at [of i "Request_Items req" "stmts w" 1 st p Map.empty 0]
  by (simp add: create_order_tx_def select_user_exists_def)

lemma run_attempt_Continue_retryable:
  assumes "run_attempt a opts fn attempt backoff s = (Continue b e, s', evs)"
  shows "IsRetryable (Some e)
         \<and> (fst (fn (world a) s) = Some e
            \<or> (fst (fn (world a) s) = None \<and> commit_result a = Some e))"
  using assms
  by (auto simp: run_attempt_def Let_def not_permanent_iff [symmetric]
           split: option.splits prod.splits if_splits)


text \<open>
  Claim C1, as the code has it. Consider a pass of the executor in \<open>CreateOrder\<close> in which
  the user exists and the items before the \<open>i\<close>-th are locked with enough stock.
  If the \<open>i\<close>-th row is free but holds less than the requested quantity, the
  unit of work fails with \<open>ErrInsufficientStock\<close>, which is returned at once, unretried.
  If the row is locked by another transaction, the unit of work fails with the store's
  55P03 error wrapped in its context; the classifier calls it Transient, so the executor
  sleeps and runs the unit of work again, and only at the fourth attempt returns it,
  wrapped in the max-retries-exceeded message. In general the loop goes on to another
  attempt only after a body or commit failure classified Transient, Deadlock or
  SerializationConflict.
\<close>

theorem CreateOrder_retry_behaviour:
  assumes "attempt \<le> 3"
    and "ctx_done_at_start (env attempt) = None"
    and "begin_result (env attempt) = None"
    and "rollback_result (env attempt) = None"
    and "store_fault (stmts (world (env attempt)) 0) = None"
    and "UserID req \<in> users st"
    and "i < length (Request_Items req)"
    and "\<forall>j<i. lockable (stmts (world (env attempt)) (Suc j)) st (Request_Items req ! j)"
    and "store_fault (stmts (world (env attempt)) (Suc i)) = None"
    and "products st (ProductID (Request_Items req ! i)) = Some p"
  shows
   "(ProductID (Request_Items req ! i) \<notin> locked_by_other (stmts (world (env attempt)) (Suc i))
       \<and> StockQuantity p < Quantity (Request_Items req ! i)
     \<longrightarrow> WithRetry_loop env CreateOrder_opts (create_order_tx req) attempt backoff lastErr (st, order)
          = (Returned (Some (Sentinel ErrInsufficientStock)), (st, order),
             [EvBegin LevelSerializable False, EvFn, EvRollback]))
    \<and> (ProductID (Request_Items req ! i) \<in> locked_by_other (stmts (world (env attempt)) (Suc i))
       \<and> attempt < 3 \<and> 4 \<le> backoff \<and> backoff < 2 ^ 62
       \<and> ctx_done_in_sleep (env attempt) = None
     \<longrightarrow> WithRetry_loop env CreateOrder_opts (create_order_tx req) attempt backoff lastErr (st, order)
          = prepend [EvBegin LevelSerializable False, EvFn, EvRollback,
                     EvSleep (backoff + rand_draw (env attempt) mod (backoff div 4))]
              (WithRetry_loop env CreateOrder_opts (create_order_tx req) (attempt + 1)
                 (2 * backoff)
                 (Some (Wrap (MsgId ''lock product'' (ProductID (Request_Items req ! i)))
                          (PqError ''55P03'')))
                 (st, order)))
    \<and> (ProductID (Request_Items req ! i) \<in> locked_by_other (stmts (world (env attempt)) (Suc i))
       \<and> attempt = 3
     \<longrightarrow> WithRetry_loop env CreateOrder_opts (create_order_tx req) attempt backoff lastErr (st, order)
          = (Returned (Some (Wrap (MaxRetriesExceeded 3)
                (Wrap (MsgId ''lock product'' (ProductID (Request_Items req ! i)))
                   (PqError ''55P03'')))), (st, order),
             [EvBegin LevelSerializable False, EvFn, EvRollback]))
    \<and> (\<forall>b e s' evs.
          run_attempt (env attempt) CreateOrder_opts (create_order_tx req) attempt backoff (st, order)
            = (Continue b e, s', evs)
          \<longrightarrow> ClassifyError (Some e)
                \<in> {ErrorClassTransient, ErrorClassDeadlock, ErrorClassSerialization})"
proof -
  let ?a = "env attempt"
  let ?w = "world ?a"
  let ?item = "Request_Items req ! i"
  let ?locked = "Wrap (MsgId ''lock product'' (ProductID ?item)) (PqError ''55P03'')"
  have le: "attempt \<le> MaxRetries CreateOrder_opts"
    using assms(1) by (simp add: CreateOrder_opts_def)
  have c1: "ProductID ?item \<notin> locked_by_other (stmts ?w (Suc i))
       \<and> StockQuantity p < Quantity ?item
     \<longrightarrow> WithRetry_loop env CreateOrder_opts (create_order_tx req) attempt backoff lastErr (st, order)
          = (Returned (Some (Sentinel ErrInsufficientStock)), (st, order),
             [EvBegin LevelSerializable False, EvFn, EvRollback])"
  proof
    assume h: "ProductID ?item \<notin> locked_by_other (stmts ?w (Suc i))
       \<and> StockQuantity p < Quantity ?item"
    have body: "create_order_tx req ?w (st, order)
                  = (Some (Sentinel ErrInsufficientStock), (st, order))"
      using create_order_tx_insufficient [where w = "?w" and req = req and st = st and i = i
              and p = p and order = order] assms h
      by simp
    have "run_attempt ?a CreateOrder_opts (create_order_tx req) attempt backoff (st, order)
            = (Return (Some (Sentinel ErrInsufficientStock)), (st, order),
               [EvBegin LevelSerializable False, EvFn, EvRollback])"
      using assms(2-4) body
      by (simp add: run_attempt_def ClassifyError_def CreateOrder_opts_def)
    then show "WithRetry_loop env CreateOrder_opts (create_order_tx req) attempt backoff lastErr
                 (st, order)
          = (Returned (Some (Sentinel ErrInsufficientStock)), (st, order),
             [EvBegin LevelSerializable False, EvFn, EvRollback])"
      using le by (rule WithRetry_loop_Return [rotated])
  qed
  have body_locked: "create_order_tx req ?w (st, order) = (Some ?locked, (st, order))"
    if "ProductID ?item \<in> locked_by_other (stmts ?w (Suc i))"
    using create_order_tx_locked [where w = "?w" and req = req and st = st and i = i
            and p = p and order = order] assms that
    by simp
  have c2: "ProductID ?item \<in> locked_by_other (stmts ?w (Suc i))
       \<and> attempt < 3 \<and> 4 \<le> backoff \<and> backoff < 2 ^ 62 \<and> ctx_done_in_sleep ?a = None
     \<longrightarrow> WithRetry_loop env CreateOrder_opts (create_order_tx req) attempt backoff lastErr (st, order)
          = prepend [EvBegin LevelSerializable False, EvFn, EvRollback,
                     EvSleep (backoff + rand_draw ?a mod (backoff div 4))]
              (WithRetry_loop env CreateOrder_opts (create_order_tx req) (attempt + 1)
                 (2 * backoff) (Some ?locked) (st, order))"
  proof
    assume h: "ProductID ?item \<in> locked_by_other (stmts ?w (Suc i))
       \<and> attempt < 3 \<and> 4 \<le> backoff \<and> backoff < 2 ^ 62 \<and> ctx_done_in_sleep ?a = None"
    have "run_attempt ?a CreateOrder_opts (create_order_tx req) attempt backoff (st, order)
            = (Continue (2 * backoff) ?locked, (st, order),
               [EvBegin (IsolationLevel CreateOrder_opts) (ReadOnly CreateOrder_opts), EvFn,
                EvRollback, EvSleep (backoff + rand_draw ?a mod (backoff div 4))])"
      using run_attempt_body_retry [where a = "?a" and fn = "create_order_tx req"
              and s = "(st, order)" and e = "?locked" and s' = "(st, order)"
              and attempt = attempt and opts = CreateOrder_opts and backoff = backoff]
            assms(2-4) h body_locked [OF conjunct1 [OF h]]
      by (simp add: CreateOrder_opts_def)
    then have "WithRetry_loop env CreateOrder_opts (create_order_tx req) attempt backoff lastErr
                 (st, order)
          = prepend [EvBegin (IsolationLevel CreateOrder_opts) (ReadOnly CreateOrder_opts), EvFn,
                EvRollback, EvSleep (backoff + rand_draw ?a mod (backoff div 4))]
              (WithRetry_loop env CreateOrder_opts (create_order_tx req) (attempt + 1)
                 (2 * backoff) (Some ?locked) (st, order))"
      using le by (rule WithRetry_loop_Continue [rotated])
    then show "WithRetry_loop env CreateOrder_opts (create_order_tx req) attempt backoff lastErr
                 (st, order)
          = prepend [EvBegin LevelSerializable False, EvFn, EvRollback,
                     EvSleep (backoff + rand_draw ?a mod (backoff div 4))]
              (WithRetry_loop env CreateOrder_opts (create_order_tx req) (attempt + 1)
                 (2 * backoff) (Some ?locked) (st, order))"
      by (simp add: CreateOrder_opts_def)
  qed
  have c3: "ProductID ?item \<in> locked_by_other (stmts ?w (Suc i)) \<and> attempt = 3
     \<longrightarrow> WithRetry_loop env CreateOrder_opts (create_order_tx req) attempt backoff lastErr (st, order)
          = (Returned (Some (Wrap (MaxRetriesExceeded 3) ?locked)), (st, order),
             [EvBegin LevelSerializable False, EvFn, EvRollback])"
  proof
    assume h: "ProductID ?item \<in> locked_by_other (stmts ?w (Suc i)) \<and> attempt = 3"
    have "run_attempt ?a CreateOrder_opts (create_order_tx req) attempt backoff (st, order)
            = (Return (Some (Wrap (MaxRetriesExceeded 3) ?locked)), (st, order),
               [EvBegin LevelSerializable False, EvFn, EvRollback])"
      using assms(2-4) h body_locked [OF conjunct1 [OF h]]
      by (simp add: run_attempt_def ClassifyError_def CreateOrder_opts_def)
    then show "WithRetry_loop env CreateOrder_opts (create_order_tx req) attempt backoff lastErr
                 (st, order)
          = (Returned (Some (Wrap (MaxRetriesExceeded 3) ?locked)), (st, order),
             [EvBegin LevelSerializable False, EvFn, EvRollback])"
      using le by (rule WithRetry_loop_Return [rotated])
  qed
  have c4: "\<forall>b e s' evs.
          run_attempt ?a CreateOrder_opts (create_order_tx req) attempt backoff (st, order)
            = (Continue b e, s', evs)
          \<longrightarrow> ClassifyError (Some e)
                \<in> {ErrorClassTransient, ErrorClassDeadlock, ErrorClassSerialization}"
    using run_attempt_Continue_retryable
    by (fastforce simp: IsRetryable_def Let_def)
  show ?thesis using c1 c2 c3 c4 by blast
qed


theorem CreateOrder_retry_behaviour_witness:
  "WithRetry_loop contended CreateOrder_opts (create_order_tx six_widgets) 1 100000000 None
       (shop, None)
     = (Returned (Some (Sentinel ErrInsufficientStock)), (shop, None),
        [EvBegin LevelSerializable False, EvFn, EvRollback])
   \<and> WithRetry_loop contended CreateOrder_opts (create_order_tx two_widgets) 0 50000000 None
       (shop, None)
     = prepend [EvBegin LevelSerializable False, EvFn, EvRollback, EvSleep 50000007]
         (WithRetry_loop contended CreateOrder_opts (create_order_tx two_widgets) 1 100000000
            (Some (Wrap (MsgId ''lock product'' 1) (PqError ''55P03''))) (shop, None))"
proof -
  have a: "WithRetry_loop contended CreateOrder_opts (create_order_tx six_widgets) 1 100000000
       None (shop, None)
     = (Returned (Some (Sentinel ErrInsufficientStock)), (shop, None),
        [EvBegin LevelSerializable False, EvFn, EvRollback])"
    using CreateOrder_retry_behaviour [where attempt = 1 and env = contended
            and req = six_widgets and st = shop and i = 0 and p = widget
            and backoff = 100000000 and lastErr = None and order = None]
    by (simp add: contended_def six_widgets_def shop_def widget_def quiet_def)
  have b: "WithRetry_loop contended CreateOrder_opts (create_order_tx two_widgets) 0 50000000
       None (shop, None)
     = prepend [EvBegin LevelSerializable False, EvFn, EvRollback, EvSleep 50000007]
         (WithRetry_loop contended CreateOrder_opts (create_order_tx two_widgets) 1 100000000
            (Some (Wrap (MsgId ''lock product'' 1) (PqError ''55P03''))) (shop, None))"
    using CreateOrder_retry_behaviour [where attempt = 0 and env = contended
            and req = two_widgets and st = shop and i = 0 and p = widget
            and backoff = 50000000 and lastErr = None and order = None]
    by (simp add: contended_def two_widgets_def shop_def widget_def quiet_def)
  show ?thesis using a b by simp
qed

text \<open>
  The claim as stated fails for the locked row: the first attempt of this checkout meets
  the lock-unavailable error, yet \<open>CreateOrder\<close> does not surface it; it sleeps, runs
  the unit of work a second time and returns the created order.
\<close>

theorem CreateOrder_lock_unavailable_counterexample:
  "fst (create_order_tx two_widgets (world (contended 0)) (shop, None))
     = Some (Wrap (MsgId ''lock product'' 1) (PqError ''55P03''))
   \<and> fst (CreateOrder contended shop two_widgets)
     = CreateReturned
         (Some \<lparr>Order_ID = 1, Order_UserID = 1, OrderNumber = ''ORD-1700000000000000000'',
                Status = ''pending'', TotalAmount = 5998,
                Order_CreatedAt = 1700000000000000000, Order_UpdatedAt = 1700000000000000000,
                Order_Version = 1, Items = []\<rparr>)
         None
   \<and> snd (snd (CreateOrder contended shop two_widgets))
     = [EvBegin LevelSerializable False, EvFn, EvRollback, EvSleep 50000007,
        EvBegin LevelSerializable False, EvFn, EvCommit]"
proof -
  have body0: "create_order_tx two_widgets (world (contended 0)) (shop, None)
     = (Some (Wrap (MsgId ''lock product'' 1) (PqError ''55P03'')), (shop, None))"
    by (simp add: create_order_tx_def select_user_exists_def select_product_for_update_nowait_def
                  contended_def two_widgets_def shop_def widget_def quiet_def)
  note defs = CreateOrder_def WithRetry_def WithRetry_loop.simps run_attempt_def
    create_order_tx_def select_user_exists_def select_product_for_update_nowait_def
    insert_order_def insert_order_item_def exec_decrement_stock_def select_order_def
    CreateOrder_opts_def ClassifyError_def wrap64_def go_quot_def Let_def
    contended_def two_widgets_def shop_def widget_def quiet_def
  have res: "fst (CreateOrder contended shop two_widgets)
     = CreateReturned
         (Some \<lparr>Order_ID = 1, Order_UserID = 1, OrderNumber = ''ORD-1700000000000000000'',
                Status = ''pending'', TotalAmount = 5998,
                Order_CreatedAt = 1700000000000000000, Order_UpdatedAt = 1700000000000000000,
                Order_Version = 1, Items = []\<rparr>)
         None"
    by (simp add: defs)
  have trace: "snd (snd (CreateOrder contended shop two_widgets))
     = [EvBegin LevelSerializable False, EvFn, EvRollback, EvSleep 50000007,
        EvBegin LevelSerializable False, EvFn, EvCommit]"
    by (simp add: defs)
  show ?thesis using body0 res trace by simp
qed

section \<open>Properties of cursor pagination\<close>

lemma pair_less_iff: "((a::int, b::int) < (c, d)) = (a < c \<or> (a = c \<and> b < d))"
  by (auto simp: less_prod_def)

lemma rows_below_set:
  "set (rows_below st userID createdAt ident) =
     {ord \<in> set (orders st). Order_UserID ord = userID
        \<and> (Order_CreatedAt ord, Order_ID ord) < (createdAt, ident)}"
  by (auto simp: rows_below_def)


text \<open>
  Claim C2, as the code has it. An empty token decodes, without error, to the position
  whose timestamp is the reading of the clock at the call and whose identifier is
  \<open>2^63 - 1\<close>. The first page's strictly-less query therefore addresses exactly the
  user's rows created before that reading (or at it, with a smaller identifier); rows
  with a later timestamp are left out.
\<close>

theorem DecodeCursor_empty_token:
  "DecodeCursor lib now [] = (\<lparr>Cursor_CreatedAt = now, Cursor_ID = 2 ^ 63 - 1\<rparr>, None)
   \<and> set (rows_below st userID (Cursor_CreatedAt (fst (DecodeCursor lib now [])))
            (Cursor_ID (fst (DecodeCursor lib now []))))
       = {ord \<in> set (orders st). Order_UserID ord = userID
            \<and> (Order_CreatedAt ord < now
                 \<or> (Order_CreatedAt ord = now \<and> Order_ID ord < 2 ^ 63 - 1))}"
  by (auto simp: DecodeCursor_def rows_below_set)

text \<open>
  The claim as stated fails: with the clock at 25 the decoded timestamp is 25, not a
  maximum, and the first page leaves out the user's order created at 30.
\<close>

theorem DecodeCursor_empty_token_counterexample:
  "(\<forall>lib. Cursor_CreatedAt (fst (DecodeCursor lib 25 [])) = 25)
   \<and> order_at 4 30 \<in> set (orders order_book)
   \<and> Order_UserID (order_at 4 30) = 1
   \<and> (\<forall>lib. order_at 4 30 \<notin> set (rows_below order_book 1
         (Cursor_CreatedAt (fst (DecodeCursor lib 25 [])))
         (Cursor_ID (fst (DecodeCursor lib 25 [])))))
   \<and> ListOrdersCursor toy_library 25 no_faults order_book 1 [] 10
      = ListReturned
          (Some \<lparr>Page_Items = map scan_order [order_at 3 20, order_at 2 20, order_at 1 10],
                 NextCursor = [], HasMore = False\<rparr>)
          None"
proof -
  have a: "\<forall>lib. Cursor_CreatedAt (fst (DecodeCursor lib 25 [])) = 25"
    by (simp add: DecodeCursor_def)
  have b: "order_at 4 30 \<in> set (orders order_book)"
    by (simp add: order_book_def)
  have c: "Order_UserID (order_at 4 30) = 1"
    by (simp add: order_at_def)
  have d: "\<forall>lib. order_at 4 30 \<notin> set (rows_below order_book 1
         (Cursor_CreatedAt (fst (DecodeCursor lib 25 [])))
         (Cursor_ID (fst (DecodeCursor lib 25 []))))"
    by (simp add: DecodeCursor_def rows_below_set pair_less_iff order_at_def)
  have e: "ListOrdersCursor toy_library 25 no_faults order_book 1 [] 10
      = ListReturned
          (Some \<lparr>Page_Items = map scan_order [order_at 3 20, order_at 2 20, order_at 1 10],
                 NextCursor = [], HasMore = False\<rparr>)
          None"
    by (simp add: ListOrdersCursor_def DecodeCursor_def query_orders_below_def rows_below_def
                  no_faults_def order_book_def order_at_def wrap64_def pair_less_iff Let_def)
  show ?thesis using a b c d e by blast
qed





lemma scan_order_key [simp]:
  "Order_CreatedAt (scan_order row) = Order_CreatedAt row"
  "Order_ID (scan_order row) = Order_ID row"
  by (simp_all add: scan_order_def)





section \<open>Limits of the backoff arithmetic\<close>

text \<open>
  The backoff of attempt \<open>k\<close> is 50 ms doubled \<open>k\<close> times. Up to \<open>k = 36\<close> it lies
  within the bounds under which the policy above is stated; the sleeps before attempt 38
  add up to more than 400 years. Doubled 38 times it no longer fits in an \<open>int64\<close>: the
  wrapped value is negative, and a retryable failure with attempts remaining would make
  \<open>rand.Int63n\<close> panic.
\<close>

lemma backoff_within_bounds:
  "k \<le> 36 \<Longrightarrow> 4 \<le> 50000000 * (2::int) ^ k \<and> 50000000 * (2::int) ^ k < 2 ^ 62"
proof -
  assume k: "k \<le> 36"
  have "(2::int) ^ k \<le> 2 ^ 36" using k by (intro power_increasing) simp_all
  then have "50000000 * (2::int) ^ k \<le> 50000000 * 2 ^ 36"
    by (intro mult_left_mono) simp_all
  then have hi: "50000000 * (2::int) ^ k < 2 ^ 62" by simp
  have one: "(1::int) \<le> 2 ^ k" by simp
  have "50000000 * (1::int) \<le> 50000000 * 2 ^ k"
    using one by (intro mult_left_mono) simp_all
  then have lo: "4 \<le> 50000000 * (2::int) ^ k" by linarith
  show ?thesis using lo hi by simp
qed

lemma backoff_overflow_panics:
  assumes "ctx_done_at_start a = None" "begin_result a = None"
    and "fn (world a) s = (Some (PqError ''40P01''), s')" "rollback_result a = None"
    and "attempt \<noteq> MaxRetries opts"
  shows "fst (run_attempt a opts fn attempt (wrap64 (50000000 * 2 ^ 38)) s) = Panic"
  using assms
  by (simp add: run_attempt_def ClassifyError_def wrap64_def go_quot_def Let_def)

end
